theory Spec2Isabelle
  imports Complex_Main "HOL-Library.Multiset"
begin

section \<open>Device availability: LibreNMS statistics for the devices of NetBox\<close>

text \<open>
  The repository holds two variants of one pipeline: \<^verbatim>\<open>Switch_Availability.py\<close> (a
  process pool of one worker) and \<^verbatim>\<open>Switch_Availability_asyncio.py\<close> (asyncio). Both
  list the devices of NetBox, ask LibreNMS for the availability of each device, and average
  the answers over four windows.

  NetBox, the HTTP client and the console of \<^verbatim>\<open>rich\<close> are not code of the repository:
  the inventory's outcome, the HTTP request and the printing of a markup string are
  parameters of the model. Numbers are Python's floats: binary64 values, every operation
  rounded to the nearest value, ties to even. The sign of zero is not kept.
\<close>

subsection \<open>Data\<close>

text \<open>The exceptions the two scripts can end with.\<close>

datatype py_error =
  ConnectionError | JSONDecodeError | KeyError | TypeError | ValueError | ZeroDivisionError
  | NameError | MarkupError

text \<open>
  A pynetbox device, as far as the scripts read it: \<^verbatim>\<open>device.name\<close> and
  \<^verbatim>\<open>device.primary_ip4["address"]\<close>.
\<close>

record device =
  name :: string
  primary_ip4 :: string

text \<open>The environment variables \<^verbatim>\<open>get_availability\<close> reads.\<close>

record env =
  LIBRENMS_URL :: string
  LIBRENMS_API_KEY :: string

text \<open>
  One entry of the list under \<^verbatim>\<open>"availability"\<close> in the body LibreNMS answers with:
  \<^verbatim>\<open>{'availability_perc': '100.000000', 'duration': 86400}\<close>.
\<close>

record avail =
  availability_perc :: string
  duration :: int

text \<open>
  The value under \<^verbatim>\<open>"availability"\<close> in the decoded body. LibreNMS documents a list of
  entries; JSON allows any value, and the two scripts test it differently. Of an object
  only the keys matter here. The entries of a list are taken to be of the documented
  shape.
\<close>

datatype json =
  JNull | JBool bool | JNumber rat | JString string | JObject "string list" | JArray "avail list"

text \<open>
  The dictionary \<^verbatim>\<open>get_availability\<close> returns has the string key \<^verbatim>\<open>"Name"\<close> and the
  integer keys of the durations; every value is a string.
\<close>

datatype key = Name | Dur int

type_synonym availability = "key \<rightharpoonup> string"

text \<open>What one fetch returns: a dictionary, or Python's \<^verbatim>\<open>None\<close>.\<close>

type_synonym fetched = "availability option"

text \<open>
  A fetch as the schedulers see it: the lines it printed on the console, and the
  exception it raised or the value it returned.
\<close>

type_synonym fetch = "string list \<times> (py_error + fetched)"

text \<open>The task of a \<^verbatim>\<open>rich\<close> progress bar.\<close>

record task =
  description :: string
  total :: nat
  completed :: nat

text \<open>A Python float: a finite binary64 value, an infinity, or not a number.\<close>

datatype float64 = Fin rat | PosInf | NegInf | NaN

text \<open>The dictionary \<^verbatim>\<open>average_availability\<close> returns.\<close>

record report =
  day :: float64
  week :: float64
  month :: float64
  year :: float64

subsection \<open>Floats\<close>

text \<open>The number of binary digits of a natural number.\<close>

fun bits :: "nat \<Rightarrow> nat" where
  "bits n = (if n = 0 then 0 else Suc (bits (n div 2)))"

declare bits.simps [simp del]

text \<open>For a positive \<open>x\<close>, the exponent of the power of two at or below \<open>x\<close>.\<close>

definition ilog2 :: "rat \<Rightarrow> int" where
  "ilog2 x =
     (if 1 \<le> x then int (bits (nat \<lfloor>x\<rfloor>)) - 1 else - int (bits (nat (\<lceil>1 / x\<rceil> - 1))))"

definition pow2 :: "int \<Rightarrow> rat" where
  "pow2 e = (if 0 \<le> e then 2 ^ nat e else 1 / 2 ^ nat (- e))"

text \<open>The nearest integer, the even one of two that are equally near.\<close>

definition round_even :: "rat \<Rightarrow> int" where
  "round_even y =
     (let f = \<lfloor>y\<rfloor>; d = y - of_int f
      in if d < 1 / 2 then f else if 1 / 2 < d then f + 1 else if even f then f else f + 1)"

text \<open>
  The binary64 value nearest to a rational: a significand of 53 bits, the least
  exponent that of the subnormal numbers, an infinity from \<open>2 ^ 1024\<close> on.
\<close>

definition b64 :: "rat \<Rightarrow> float64" where
  "b64 x =
     (if x = 0 then Fin 0
      else let e = max (ilog2 \<bar>x\<bar> - 52) (- 1074);
               m = round_even (\<bar>x\<bar> / pow2 e);
               y = of_int m * pow2 e
           in if pow2 1024 \<le> y then (if 0 < x then PosInf else NegInf)
              else Fin (if 0 < x then y else - y))"

text \<open>The sum of two floats.\<close>

fun fadd :: "float64 \<Rightarrow> float64 \<Rightarrow> float64" where
  "fadd (Fin a) (Fin b) = b64 (a + b)"
| "fadd NaN _ = NaN"
| "fadd _ NaN = NaN"
| "fadd PosInf NegInf = NaN"
| "fadd NegInf PosInf = NaN"
| "fadd PosInf _ = PosInf"
| "fadd _ PosInf = PosInf"
| "fadd NegInf _ = NegInf"
| "fadd _ NegInf = NegInf"

text \<open>
  A float divided by a positive \<^verbatim>\<open>int\<close>, here the length of a list, which converts to a
  float as it is.
\<close>

fun fdiv_nat :: "float64 \<Rightarrow> nat \<Rightarrow> float64" where
  "fdiv_nat (Fin a) n = b64 (a / of_nat n)"
| "fdiv_nat PosInf n = PosInf"
| "fdiv_nat NegInf n = NegInf"
| "fdiv_nat NaN n = NaN"

text \<open>
  \<^verbatim>\<open>sum(xs)\<close> of a list of floats: from the \<^verbatim>\<open>int\<close> 0, one addition for every item,
  from left to right, each of them rounded. This is the \<^verbatim>\<open>sum\<close> of CPython up to 3.11;
  from 3.12 on it carries a correction term along, which is not modelled.
\<close>

definition fsum :: "float64 list \<Rightarrow> float64" where
  "fsum xs = foldl fadd (Fin 0) xs"

subsection \<open>float on a string\<close>

text \<open>
  Python's \<^verbatim>\<open>float\<close> on a string of ASCII characters: blanks at both ends are dropped;
  then a sign, and a decimal number with an optional exponent, or \<^verbatim>\<open>inf\<close>,
  \<^verbatim>\<open>infinity\<close> or \<^verbatim>\<open>nan\<close> in any case. Digits may be grouped by single underscores. The
  number is rounded to the nearest float. Any other string is a \<^verbatim>\<open>ValueError\<close>.
\<close>

definition is_space :: "char \<Rightarrow> bool" where
  "is_space c = (c \<in> set [CHR 0x20, CHR 0x09, CHR 0x0A, CHR 0x0B, CHR 0x0C, CHR 0x0D])"

definition strip :: "string \<Rightarrow> string" where
  "strip s = rev (dropWhile is_space (rev (dropWhile is_space s)))"

definition digit_of :: "char \<Rightarrow> nat option" where
  "digit_of c = (if c \<in> set ''0123456789'' then Some (of_char c - 48) else None)"

definition lower :: "char \<Rightarrow> char" where
  "lower c = (if c \<in> set ''ABCDEFGHIJKLMNOPQRSTUVWXYZ'' then char_of (of_char c + (32::nat)) else c)"

text \<open>
  The digits after a first one: the value so far, the number of digits so far, and the
  text; the value, the number of digits and what is left.
\<close>

fun digits_from :: "nat \<Rightarrow> nat \<Rightarrow> string \<Rightarrow> nat \<times> nat \<times> string" where
  "digits_from acc n [] = (acc, n, [])"
| "digits_from acc n [c] =
     (case digit_of c of None \<Rightarrow> (acc, n, [c]) | Some d \<Rightarrow> (10 * acc + d, Suc n, []))"
| "digits_from acc n (c # c' # cs) =
     (case digit_of c of
        Some d \<Rightarrow> digits_from (10 * acc + d) (Suc n) (c' # cs)
      | None \<Rightarrow>
          if c = CHR ''_'' then
            (case digit_of c' of
               Some d \<Rightarrow> digits_from (10 * acc + d) (Suc n) cs
             | None \<Rightarrow> (acc, n, c # c' # cs))
          else (acc, n, c # c' # cs))"

definition digitpart :: "string \<Rightarrow> (nat \<times> nat \<times> string) option" where
  "digitpart s =
     (case s of
        [] \<Rightarrow> None
      | c # cs \<Rightarrow> (case digit_of c of None \<Rightarrow> None | Some d \<Rightarrow> Some (digits_from d 1 cs)))"

text \<open>\<^verbatim>\<open>[digitpart] "." digitpart | digitpart ["."]\<close>: the value and what is left.\<close>

definition number :: "string \<Rightarrow> (rat \<times> string) option" where
  "number s =
     (case digitpart s of
        Some (ip, _, rest) \<Rightarrow>
          (case rest of
             c # cs \<Rightarrow>
               if c = CHR ''.'' then
                 (case digitpart cs of
                    Some (fp, n, rest') \<Rightarrow> Some (of_nat ip + of_nat fp / 10 ^ n, rest')
                  | None \<Rightarrow> Some (of_nat ip, cs))
               else Some (of_nat ip, rest)
           | [] \<Rightarrow> Some (of_nat ip, []))
      | None \<Rightarrow>
          (case s of
             c # cs \<Rightarrow>
               if c = CHR ''.'' then
                 (case digitpart cs of
                    Some (fp, n, rest') \<Rightarrow> Some (of_nat fp / 10 ^ n, rest')
                  | None \<Rightarrow> None)
               else None
           | [] \<Rightarrow> None))"

text \<open>\<^verbatim>\<open>("e" | "E") ["+" | "-"] digitpart\<close>, to the end of the text; no exponent is 0.\<close>

definition exponent :: "string \<Rightarrow> int option" where
  "exponent s =
     (case s of
        [] \<Rightarrow> Some 0
      | c # cs \<Rightarrow>
          if c = CHR ''e'' \<or> c = CHR ''E'' then
            (case cs of
               [] \<Rightarrow> None
             | c' # cs' \<Rightarrow>
                 (case digitpart (if c' = CHR ''+'' \<or> c' = CHR ''-'' then cs' else cs) of
                    Some (ex, _, []) \<Rightarrow> Some (if c' = CHR ''-'' then - int ex else int ex)
                  | _ \<Rightarrow> None))
          else None)"

text \<open>The value of a decimal number with an optional exponent.\<close>

definition floatnumber :: "string \<Rightarrow> rat option" where
  "floatnumber s =
     (case number s of
        None \<Rightarrow> None
      | Some (v, rest) \<Rightarrow>
          (case exponent rest of
             None \<Rightarrow> None
           | Some ex \<Rightarrow> Some (if 0 \<le> ex then v * 10 ^ nat ex else v / 10 ^ nat (- ex))))"

text \<open>What a text without its sign stands for.\<close>

definition absfloatvalue :: "bool \<Rightarrow> string \<Rightarrow> py_error + float64" where
  "absfloatvalue negative s =
     (if map lower s = ''inf'' \<or> map lower s = ''infinity'' then
        Inr (if negative then NegInf else PosInf)
      else if map lower s = ''nan'' then Inr NaN
      else case floatnumber s of
             None \<Rightarrow> Inl ValueError
           | Some v \<Rightarrow> Inr (b64 (if negative then - v else v)))"

definition py_float :: "string \<Rightarrow> py_error + float64" where
  "py_float s =
     (case strip s of
        [] \<Rightarrow> Inl ValueError
      | c # cs \<Rightarrow>
          if c = CHR ''-'' then absfloatvalue True cs
          else if c = CHR ''+'' then absfloatvalue False cs
          else absfloatvalue False (c # cs))"

subsection \<open>get\_availability\<close>

text \<open>\<^verbatim>\<open>device.primary_ip4["address"].split("/")[0]\<close>\<close>

definition device_ip :: "device \<Rightarrow> string" where
  "device_ip dev = takeWhile (\<lambda>c. c \<noteq> CHR ''/'') (primary_ip4 dev)"

text \<open>\<^verbatim>\<open>LIBRENMS_URL + device_ip + "/availability"\<close>\<close>

definition request_url :: "env \<Rightarrow> device \<Rightarrow> string" where
  "request_url e dev = LIBRENMS_URL e @ device_ip dev @ ''/availability''"

text \<open>\<^verbatim>\<open>headers = {"X-Auth-Token": LIBRENMS_API_KEY}\<close>\<close>

definition request_headers :: "env \<Rightarrow> (string \<times> string) list" where
  "request_headers e = [(''X-Auth-Token'', LIBRENMS_API_KEY e)]"

text \<open>
  The request and the decoding of its body, \<^verbatim>\<open>requests.get(url, headers=headers).json()\<close>
  followed by the lookup of \<^verbatim>\<open>"availability"\<close>, is the parameter \<open>http_get\<close>: it raises, or
  gives the value under the key.
\<close>

type_synonym http = "string \<Rightarrow> (string \<times> string) list \<Rightarrow> py_error + json"

text \<open>
  \<^verbatim>\<open>Progress().console.print(markup)\<close> is the parameter \<open>console_print\<close>: \<^verbatim>\<open>rich\<close> reads
  square brackets in the string as markup, and raises or prints a line.
\<close>

type_synonym console = "string \<Rightarrow> py_error + string"

text \<open>\<^verbatim>\<open>len(x)\<close>\<close>

fun py_len :: "json \<Rightarrow> py_error + nat" where
  "py_len (JArray avs) = Inr (length avs)"
| "py_len (JString s) = Inr (length s)"
| "py_len (JObject ks) = Inr (length ks)"
| "py_len _ = Inl TypeError"

text \<open>\<^verbatim>\<open>not x\<close> is the negation of this.\<close>

fun truthy :: "json \<Rightarrow> bool" where
  "truthy JNull = False"
| "truthy (JBool b) = b"
| "truthy (JNumber x) = (x \<noteq> 0)"
| "truthy (JString s) = (s \<noteq> [])"
| "truthy (JObject ks) = (ks \<noteq> [])"
| "truthy (JArray avs) = (avs \<noteq> [])"

text \<open>
  \<^verbatim>\<open>{avail["duration"]: avail["availability_perc"] for avail in list_of_avails}\<close> over a
  list of entries: a later entry overwrites an earlier one of the same duration.
\<close>

definition dict_comp :: "avail list \<Rightarrow> availability" where
  "dict_comp list_of_avails =
     fold (\<lambda>a m. m(Dur (duration a) \<mapsto> availability_perc a)) list_of_avails Map.empty"

text \<open>
  The same comprehension over any value: a number, a truth value and \<^verbatim>\<open>None\<close> cannot
  be iterated; the items of a string and of an object are strings, which
  \<^verbatim>\<open>avail["duration"]\<close> cannot index.
\<close>

fun comprehension :: "json \<Rightarrow> py_error + availability" where
  "comprehension (JArray avs) = Inr (dict_comp avs)"
| "comprehension (JString s) = (if s = [] then Inr Map.empty else Inl TypeError)"
| "comprehension (JObject ks) = (if ks = [] then Inr Map.empty else Inl TypeError)"
| "comprehension _ = Inl TypeError"

text \<open>
  \<^verbatim>\<open>Progress().console.print(f"[red]{device.name} issue in LibreNMS")\<close> and
  \<^verbatim>\<open>return None\<close>
\<close>

definition print_issue :: "console \<Rightarrow> device \<Rightarrow> fetch" where
  "print_issue console_print dev =
     (case console_print (''[red]'' @ name dev @ '' issue in LibreNMS'') of
        Inl err \<Rightarrow> ([], Inl err)
      | Inr line \<Rightarrow> ([line], Inr None))"

text \<open>The lines from \<^verbatim>\<open>list_of_avails = ...\<close> to \<^verbatim>\<open>return availability\<close>.\<close>

definition build_availability :: "device \<Rightarrow> json \<Rightarrow> fetch" where
  "build_availability dev list_of_avails =
     (case comprehension list_of_avails of
        Inl err \<Rightarrow> ([], Inl err)
      | Inr d \<Rightarrow> ([], Inr (Some ([Name \<mapsto> name dev] ++ d))))"

text \<open>
  \<^verbatim>\<open>Switch_Availability.py\<close>, lines 58 to 102: the test is
  \<^verbatim>\<open>len(response["availability"]) == 0\<close>.
\<close>

definition get_availability :: "console \<Rightarrow> env \<Rightarrow> http \<Rightarrow> device \<Rightarrow> fetch" where
  "get_availability console_print e http_get dev =
     (case http_get (request_url e dev) (request_headers e) of
        Inl err \<Rightarrow> ([], Inl err)
      | Inr list_of_avails \<Rightarrow>
          (case py_len list_of_avails of
             Inl err \<Rightarrow> ([], Inl err)
           | Inr n \<Rightarrow>
               if n = 0 then print_issue console_print dev
               else build_availability dev list_of_avails))"

text \<open>
  \<^verbatim>\<open>Switch_Availability_asyncio.py\<close>, lines 41 to 62: the test is
  \<^verbatim>\<open>not data["availability"]\<close>.
\<close>

definition get_availability_async :: "console \<Rightarrow> env \<Rightarrow> http \<Rightarrow> device \<Rightarrow> fetch" where
  "get_availability_async console_print e http_get dev =
     (case http_get (request_url e dev) (request_headers e) of
        Inl err \<Rightarrow> ([], Inl err)
      | Inr list_of_avails \<Rightarrow>
          if \<not> truthy list_of_avails then print_issue console_print dev
          else build_availability dev list_of_avails)"

subsection \<open>multi\_proc\<close>

text \<open>
  The loop \<^verbatim>\<open>for result in pool.imap(task_item, device_list)\<close> of a pool of one worker.
  Its state is the global \<^verbatim>\<open>results\<close> (\<open>None\<close> when no such name is bound) and the
  progress task. \<^verbatim>\<open>imap\<close> hands the results over in the order of the list and raises a
  worker's exception where its result is due; \<^verbatim>\<open>results.append\<close> raises
  \<^verbatim>\<open>NameError\<close> when the name is not bound. The console is left out: what the worker
  prints after a failure depends on when the pool is torn down.
\<close>

fun for_imap ::
  "(device \<Rightarrow> fetch) \<Rightarrow> device list \<Rightarrow> fetched list option \<Rightarrow> task
     \<Rightarrow> (py_error + unit) \<times> fetched list option \<times> task" where
  "for_imap task_item [] results t = (Inr (), results, t)"
| "for_imap task_item (dev # device_list) results t =
     (case snd (task_item dev) of
        Inl err \<Rightarrow> (Inl err, results, t)
      | Inr result \<Rightarrow>
          (case results of
             None \<Rightarrow> (Inl NameError, None, t)
           | Some rs \<Rightarrow>
               for_imap task_item device_list (Some (rs @ [result]))
                 (t\<lparr>completed := completed t + 1\<rparr>)))"

text \<open>
  \<^verbatim>\<open>Switch_Availability.py\<close>, lines 112 to 126. The value is the exception raised or
  the \<^verbatim>\<open>None\<close> returned, the global \<^verbatim>\<open>results\<close> afterwards, and the progress task.
\<close>

definition multi_proc ::
  "string \<Rightarrow> (device \<Rightarrow> fetch) \<Rightarrow> device list \<Rightarrow> fetched list option
     \<Rightarrow> (py_error + unit) \<times> fetched list option \<times> task" where
  "multi_proc descr task_item device_list results =
     for_imap task_item device_list results
       \<lparr>description = descr, total = length device_list, completed = 0\<rparr>"

subsection \<open>multi\_async\<close>

text \<open>
  \<^verbatim>\<open>asyncio.gather(*tasks)\<close> gives the results in the order of the tasks; when tasks
  raise, the exception that reaches the caller is the one raised first in time. The order
  in which the tasks complete is the parameter \<open>order\<close>, a list of positions; a failure
  that it does not list is taken in the order of the tasks.
\<close>

definition gather :: "(py_error + 'a) list \<Rightarrow> nat list \<Rightarrow> py_error + 'a list" where
  "gather outs order =
     (case List.map_filter (\<lambda>i. if i < length outs then
                                  (case outs ! i of Inl err \<Rightarrow> Some err | Inr _ \<Rightarrow> None)
                                else None)
             (order @ [0..<length outs]) of
        err # _ \<Rightarrow> Inl err
      | [] \<Rightarrow> Inr (List.map_filter (\<lambda>out. case out of Inl _ \<Rightarrow> None | Inr r \<Rightarrow> Some r) outs))"

text \<open>
  \<^verbatim>\<open>for result in results: if result is not None: progress.advance(task_id)\<close>
\<close>

definition advance_present :: "fetched list \<Rightarrow> task \<Rightarrow> task" where
  "advance_present results t =
     fold (\<lambda>result t'. if result \<noteq> None then t'\<lparr>completed := completed t' + 1\<rparr> else t')
       results t"

text \<open>
  \<^verbatim>\<open>Switch_Availability_asyncio.py\<close>, lines 65 to 75. The value is the exception raised
  or the list returned, and the progress task.
\<close>

definition multi_async ::
  "string \<Rightarrow> (device \<Rightarrow> fetch) \<Rightarrow> device list \<Rightarrow> nat list
     \<Rightarrow> (py_error + fetched list) \<times> task" where
  "multi_async descr task_item device_list order =
     (let t = \<lparr>description = descr, total = length device_list, completed = 0\<rparr> in
      case gather (map (\<lambda>dev. snd (task_item dev)) device_list) order of
        Inl err \<Rightarrow> (Inl err, t)
      | Inr results \<Rightarrow> (Inr results, advance_present results t))"

subsection \<open>average\_availability\<close>

text \<open>
  \<^verbatim>\<open>[float(result[k]) for result in results if result is not None]\<close>: a dictionary
  without the key raises \<^verbatim>\<open>KeyError\<close>, and \<^verbatim>\<open>float\<close> raises on a string it cannot
  read. \<open>pyfloat\<close> stands for \<^verbatim>\<open>float\<close>, which is \<open>py_float\<close> above; what does not
  depend on the conversion is proved for any.
\<close>

fun floats_of :: "(string \<Rightarrow> py_error + float64) \<Rightarrow> int \<Rightarrow> fetched list
     \<Rightarrow> py_error + float64 list" where
  "floats_of pyfloat k [] = Inr []"
| "floats_of pyfloat k (None # results) = floats_of pyfloat k results"
| "floats_of pyfloat k (Some result # results) =
     (case result (Dur k) of
        None \<Rightarrow> Inl KeyError
      | Some s \<Rightarrow>
          (case pyfloat s of
             Inl err \<Rightarrow> Inl err
           | Inr x \<Rightarrow>
               (case floats_of pyfloat k results of
                  Inl err \<Rightarrow> Inl err
                | Inr xs \<Rightarrow> Inr (x # xs))))"

text \<open>
  \<^verbatim>\<open>sum(xs) / len(xs)\<close>: the sum of no item is the \<^verbatim>\<open>int\<close> 0, and the division
  by the length 0 raises.
\<close>

definition average :: "float64 list \<Rightarrow> py_error + float64" where
  "average xs =
     (if length xs = 0 then Inl ZeroDivisionError else Inr (fdiv_nat (fsum xs) (length xs)))"

text \<open>
  \<^verbatim>\<open>Switch_Availability.py\<close>, lines 136 to 160, and the same function of
  \<^verbatim>\<open>Switch_Availability_asyncio.py\<close>, lines 78 to 93: the four lists first, then the four
  quotients, in the order of the source.
\<close>

definition average_availability ::
  "(string \<Rightarrow> py_error + float64) \<Rightarrow> fetched list \<Rightarrow> py_error + report" where
  "average_availability pyfloat results =
     (case floats_of pyfloat 86400 results of Inl err \<Rightarrow> Inl err | Inr day_list \<Rightarrow>
      case floats_of pyfloat 604800 results of Inl err \<Rightarrow> Inl err | Inr week_list \<Rightarrow>
      case floats_of pyfloat 2592000 results of Inl err \<Rightarrow> Inl err | Inr month_list \<Rightarrow>
      case floats_of pyfloat 31536000 results of Inl err \<Rightarrow> Inl err | Inr year_list \<Rightarrow>
      case average day_list of Inl err \<Rightarrow> Inl err | Inr average_day \<Rightarrow>
      case average week_list of Inl err \<Rightarrow> Inl err | Inr average_week \<Rightarrow>
      case average month_list of Inl err \<Rightarrow> Inl err | Inr average_month \<Rightarrow>
      case average year_list of Inl err \<Rightarrow> Inl err | Inr average_year \<Rightarrow>
        Inr \<lparr>day = average_day, week = average_week,
             month = average_month, year = average_year\<rparr>)"

subsection \<open>The two main programs\<close>

text \<open>
  \<^verbatim>\<open>Switch_Availability.py\<close>, lines 169 to 185. \<open>inventory\<close> is what
  \<^verbatim>\<open>get_list_of_devices()\<close> raises or returns. The value is what the run ends with, the
  exception or the averages it goes on to print, and the progress task if one was made.
\<close>

definition main_proc ::
  "py_error + device list \<Rightarrow> console \<Rightarrow> env \<Rightarrow> http \<Rightarrow> (string \<Rightarrow> py_error + float64)
     \<Rightarrow> (py_error + report) \<times> task option" where
  "main_proc inventory console_print e http_get pyfloat =
     (case inventory of
        Inl err \<Rightarrow> (Inl err, None)
      | Inr device_list \<Rightarrow>
          (case multi_proc ''[cyan]Requesting Device Availability...''
                  (get_availability console_print e http_get) device_list (Some []) of
             (Inl err, _, t) \<Rightarrow> (Inl err, Some t)
           | (Inr _, None, t) \<Rightarrow> (Inl NameError, Some t)
           | (Inr _, Some results, t) \<Rightarrow> (average_availability pyfloat results, Some t)))"

text \<open>\<^verbatim>\<open>Switch_Availability_asyncio.py\<close>, lines 96 to 112.\<close>

definition main_async ::
  "py_error + device list \<Rightarrow> console \<Rightarrow> env \<Rightarrow> http \<Rightarrow> (string \<Rightarrow> py_error + float64)
     \<Rightarrow> nat list \<Rightarrow> (py_error + report) \<times> task option" where
  "main_async inventory console_print e http_get pyfloat order =
     (case inventory of
        Inl err \<Rightarrow> (Inl err, None)
      | Inr device_list \<Rightarrow>
          (case multi_async ''[cyan]Requesting Device Availability...''
                  (get_availability_async console_print e http_get) device_list order of
             (Inl err, t) \<Rightarrow> (Inl err, Some t)
           | (Inr results, t) \<Rightarrow> (average_availability pyfloat results, Some t)))"

subsection \<open>Example inputs\<close>

text \<open>
  The inputs at which the theorems below are evaluated. The response is the sample of the
  comment in \<^verbatim>\<open>get_availability\<close>, lines 76 to 81 of \<^verbatim>\<open>Switch_Availability.py\<close>.
\<close>

definition sample_response :: "avail list" where
  "sample_response =
     [\<lparr>availability_perc = ''100.000000'', duration = 86400\<rparr>,
      \<lparr>availability_perc = ''100.000000'', duration = 604800\<rparr>,
      \<lparr>availability_perc = ''100.000000'', duration = 2592000\<rparr>,
      \<lparr>availability_perc = ''99.999000'', duration = 31536000\<rparr>]"

text \<open>A response whose device has no sample for the week.\<close>

definition short_response :: "avail list" where
  "short_response =
     [\<lparr>availability_perc = ''99.000000'', duration = 86400\<rparr>,
      \<lparr>availability_perc = ''98.500000'', duration = 2592000\<rparr>,
      \<lparr>availability_perc = ''97.250000'', duration = 31536000\<rparr>]"

text \<open>A response with other percentages in all four windows.\<close>

definition full_response :: "avail list" where
  "full_response =
     [\<lparr>availability_perc = ''99.989000'', duration = 86400\<rparr>,
      \<lparr>availability_perc = ''99.500000'', duration = 604800\<rparr>,
      \<lparr>availability_perc = ''98.750000'', duration = 2592000\<rparr>,
      \<lparr>availability_perc = ''99.990000'', duration = 31536000\<rparr>]"

definition sample_env :: env where
  "sample_env = \<lparr>LIBRENMS_URL = ''https://nms/api/v0/devices/'', LIBRENMS_API_KEY = ''secret''\<rparr>"

definition sw_a :: device where
  "sw_a = \<lparr>name = ''sw-a'', primary_ip4 = ''10.0.0.1/24''\<rparr>"

definition sw_b :: device where
  "sw_b = \<lparr>name = ''sw-b'', primary_ip4 = ''10.0.0.2/24''\<rparr>"

definition sw_c :: device where
  "sw_c = \<lparr>name = ''sw-c'', primary_ip4 = ''10.0.0.3/24''\<rparr>"

definition sw_d :: device where
  "sw_d = \<lparr>name = ''sw-d'', primary_ip4 = ''10.0.0.4/24''\<rparr>"

text \<open>Two devices whose names hold square brackets.\<close>

definition sw_e :: device where
  "sw_e = \<lparr>name = ''a[/b]'', primary_ip4 = ''10.0.0.5/24''\<rparr>"

definition sw_g :: device where
  "sw_g = \<lparr>name = ''sw[core]'', primary_ip4 = ''10.0.0.7/24''\<rparr>"

definition sw_f :: device where
  "sw_f = \<lparr>name = ''sw-f'', primary_ip4 = ''10.0.0.6/24''\<rparr>"

definition sw_n :: device where
  "sw_n = \<lparr>name = ''sw-n'', primary_ip4 = ''10.0.0.8/24''\<rparr>"

definition sw_j :: device where
  "sw_j = \<lparr>name = ''sw-j'', primary_ip4 = ''10.0.0.9/24''\<rparr>"

text \<open>
  A LibreNMS that knows \<open>sw_a\<close> and \<open>sw_f\<close>, has no data for \<open>sw_b\<close>, \<open>sw_e\<close> and
  \<open>sw_g\<close>, lacks the week of \<open>sw_d\<close>, answers \<^verbatim>\<open>"availability": null\<close> for \<open>sw_n\<close> and
  a body that is not JSON for \<open>sw_j\<close>, and cannot be reached for any other device.
\<close>

definition sample_http :: http where
  "sample_http url headers =
     (if url = ''https://nms/api/v0/devices/10.0.0.1/availability'' then Inr (JArray sample_response)
      else if url = ''https://nms/api/v0/devices/10.0.0.2/availability'' then Inr (JArray [])
      else if url = ''https://nms/api/v0/devices/10.0.0.4/availability'' then Inr (JArray short_response)
      else if url = ''https://nms/api/v0/devices/10.0.0.5/availability'' then Inr (JArray [])
      else if url = ''https://nms/api/v0/devices/10.0.0.6/availability'' then Inr (JArray full_response)
      else if url = ''https://nms/api/v0/devices/10.0.0.7/availability'' then Inr (JArray [])
      else if url = ''https://nms/api/v0/devices/10.0.0.8/availability'' then Inr JNull
      else if url = ''https://nms/api/v0/devices/10.0.0.9/availability'' then Inl JSONDecodeError
      else Inl ConnectionError)"

text \<open>
  What \<^verbatim>\<open>rich\<close> does with the lines of the examples: the closing tag \<^verbatim>\<open>[/b]\<close> matches
  no open tag and raises \<^verbatim>\<open>MarkupError\<close>, the tag \<^verbatim>\<open>[core]\<close> is taken out of the line as
  \<^verbatim>\<open>[red]\<close> is, and a line without further brackets is printed without its
  \<^verbatim>\<open>[red]\<close>.
\<close>

definition sample_console :: console where
  "sample_console markup =
     (if markup = ''[red]a[/b] issue in LibreNMS'' then Inl MarkupError
      else if markup = ''[red]sw[core] issue in LibreNMS'' then Inr ''sw issue in LibreNMS''
      else if take 5 markup = ''[red]'' then Inr (drop 5 markup)
      else Inr markup)"

text \<open>
  The dictionary of the comment in \<^verbatim>\<open>get_availability\<close>, lines 93 to 100 of
  \<^verbatim>\<open>Switch_Availability.py\<close>, a dictionary without the week, and the dictionary of
  \<open>full_response\<close>.
\<close>

definition sample_availability :: availability where
  "sample_availability =
     [Name \<mapsto> ''Device_Name'', Dur 86400 \<mapsto> ''100.000000'', Dur 604800 \<mapsto> ''100.000000'',
      Dur 2592000 \<mapsto> ''100.000000'', Dur 31536000 \<mapsto> ''99.999000'']"

definition short_availability :: availability where
  "short_availability =
     [Name \<mapsto> ''sw-d'', Dur 86400 \<mapsto> ''99.000000'', Dur 2592000 \<mapsto> ''98.500000'',
      Dur 31536000 \<mapsto> ''97.250000'']"

definition full_availability :: availability where
  "full_availability =
     [Name \<mapsto> ''sw-f'', Dur 86400 \<mapsto> ''99.989000'', Dur 604800 \<mapsto> ''99.500000'',
      Dur 2592000 \<mapsto> ''98.750000'', Dur 31536000 \<mapsto> ''99.990000'']"


subsection \<open>The mean as the specification words it\<close>




section \<open>Properties\<close>

subsection \<open>The two fetchers\<close>

text \<open>
  The tests of the two variants differ on a value that has no length and is not true:
  \<^verbatim>\<open>null\<close>, \<^verbatim>\<open>false\<close> and 0. On every other response the two fetch alike.
\<close>

lemma get_availability_async_eq:
  assumes "http_get (request_url e dev) (request_headers e) \<notin>
             {Inr JNull, Inr (JBool False), Inr (JNumber 0)}"
  shows "get_availability_async console_print e http_get dev =
           get_availability console_print e http_get dev"
proof (cases "http_get (request_url e dev) (request_headers e)")
  case (Inl err)
  then show ?thesis by (simp add: get_availability_async_def get_availability_def)
next
  case (Inr v)
  with assms have "v \<noteq> JNull" "v \<noteq> JBool False" "v \<noteq> JNumber 0" by auto
  then show ?thesis using Inr
    by (cases v) (auto simp: get_availability_async_def get_availability_def build_availability_def)
qed

lemma get_availability_list:
  assumes "http_get (request_url e dev) (request_headers e) = Inr (JArray avs)"
  shows "get_availability console_print e http_get dev =
           (if avs = [] then print_issue console_print dev
            else ([], Inr (Some ([Name \<mapsto> name dev] ++ dict_comp avs))))"
  using assms by (simp add: get_availability_def build_availability_def)

lemma get_availability_async_list:
  assumes "http_get (request_url e dev) (request_headers e) = Inr (JArray avs)"
  shows "get_availability_async console_print e http_get dev =
           (if avs = [] then print_issue console_print dev
            else ([], Inr (Some ([Name \<mapsto> name dev] ++ dict_comp avs))))"
  using assms by (simp add: get_availability_async_def build_availability_def)

text \<open>On \<^verbatim>\<open>null\<close> the pool variant raises and the asyncio variant reports no data.\<close>

lemma get_availability_null:
  assumes "http_get (request_url e dev) (request_headers e) = Inr JNull"
  shows "get_availability console_print e http_get dev = ([], Inl TypeError)"
    and "get_availability_async console_print e http_get dev = print_issue console_print dev"
  using assms by (simp_all add: get_availability_def get_availability_async_def)

subsection \<open>The loop of multi\_proc\<close>

text \<open>When every fetch returns, the loop appends one result for each device and advances once for each.\<close>

lemma for_imap_returns:
  "map (\<lambda>dev. snd (f dev)) ds = map Inr rs \<Longrightarrow>
   for_imap f ds (Some rs0) t = (Inr (), Some (rs0 @ rs), t\<lparr>completed := completed t + length ds\<rparr>)"
proof (induction ds arbitrary: rs rs0 t)
  case Nil
  then show ?case by simp
next
  case (Cons d ds)
  then obtain r rs' where rs: "rs = r # rs'" by (cases rs) auto
  with Cons.prems have d: "snd (f d) = Inr r" and rest: "map (\<lambda>dev. snd (f dev)) ds = map Inr rs'"
    by simp_all
  show ?case using Cons.IH [OF rest] d rs by simp
qed

text \<open>The loop ends at the first fetch that raises.\<close>

lemma for_imap_raises:
  "map (\<lambda>dev. snd (f dev)) pre = map Inr rs \<Longrightarrow> snd (f d) = Inl err \<Longrightarrow>
   for_imap f (pre @ d # post) (Some rs0) t =
     (Inl err, Some (rs0 @ rs), t\<lparr>completed := completed t + length pre\<rparr>)"
proof (induction pre arbitrary: rs rs0 t)
  case Nil
  then show ?case by simp
next
  case (Cons p pre)
  then obtain r rs' where rs: "rs = r # rs'" by (cases rs) auto
  with Cons.prems have p: "snd (f p) = Inr r" and rest: "map (\<lambda>dev. snd (f dev)) pre = map Inr rs'"
    by simp_all
  show ?case using Cons.IH [OF rest Cons.prems(2)] p rs by simp
qed

text \<open>A list of outcomes is all results, or has a first exception.\<close>

lemma first_failure:
  "(\<exists>rs. outs = map Inr rs) \<or> (\<exists>rs err post. outs = map Inr rs @ Inl err # post)"
proof (induction outs)
  case Nil
  then show ?case by simp
next
  case (Cons out outs)
  show ?case
  proof (cases out)
    case (Inl err)
    then have "out # outs = map Inr [] @ Inl err # outs" by simp
    then show ?thesis by (intro disjI2 exI)
  next
    case (Inr r)
    from Cons.IH show ?thesis
    proof
      assume "\<exists>rs. outs = map Inr rs"
      then obtain rs where "outs = map Inr rs" ..
      then have "out # outs = map Inr (r # rs)" using Inr by simp
      then show ?thesis by (intro disjI1 exI)
    next
      assume "\<exists>rs err post. outs = map Inr rs @ Inl err # post"
      then obtain rs err post where "outs = map Inr rs @ Inl err # post" by blast
      then have "out # outs = map Inr (r # rs) @ Inl err # post" using Inr by simp
      then show ?thesis by (intro disjI2 exI)
    qed
  qed
qed

lemma fetches_cases:
  "(\<exists>rs. map f ds = map Inr rs) \<or>
   (\<exists>pre d post rs err. ds = pre @ d # post \<and> map f pre = map Inr rs \<and> f d = Inl err)"
proof -
  from first_failure [of "map f ds"] show ?thesis
  proof
    assume "\<exists>rs. map f ds = map Inr rs"
    then show ?thesis ..
  next
    assume "\<exists>rs err post. map f ds = map Inr rs @ Inl err # post"
    then obtain rs err post where "map f ds = map Inr rs @ Inl err # post" by blast
    then obtain pre rest where 1: "ds = pre @ rest" "map f pre = map Inr rs" "map f rest = Inl err # post"
      by (auto simp: map_eq_append_conv)
    from 1(3) obtain d post' where 2: "rest = d # post'" "f d = Inl err"
      by (auto simp: map_eq_Cons_conv)
    from 1(1,2) 2 have "ds = pre @ d # post' \<and> map f pre = map Inr rs \<and> f d = Inl err" by simp
    then show ?thesis by blast
  qed
qed

subsection \<open>gather\<close>

lemma in_set_map_filter:
  "e \<in> set (List.map_filter g xs) \<longleftrightarrow> (\<exists>x\<in>set xs. g x = Some e)"
  by (force simp: List.map_filter_def)

lemma gather_returns: "gather (map Inr rs) order = Inr rs"
proof -
  have a: "List.map_filter (\<lambda>i. if i < length rs then
              (case (map Inr rs :: (py_error + 'a) list) ! i of Inl err \<Rightarrow> Some err | Inr _ \<Rightarrow> None) else None) is = []" for "is"
    by (induction "is") (simp_all add: List.map_filter_simps)
  have b: "List.map_filter (\<lambda>out. case out of Inl _ \<Rightarrow> None | Inr r \<Rightarrow> Some r) (map Inr rs :: (py_error + 'a) list) = rs"
    by (induction rs) (simp_all add: List.map_filter_simps)
  show ?thesis unfolding gather_def using a b by simp
qed

lemma gather_raises:
  assumes "Inl err \<in> set outs"
  shows "\<exists>err'. Inl err' \<in> set outs \<and> gather outs order = Inl err'"
proof -
  let ?g = "\<lambda>i. if i < length outs then
              (case outs ! i of Inl err \<Rightarrow> Some err | Inr _ \<Rightarrow> None) else None"
  let ?es = "List.map_filter ?g (order @ [0..<length outs])"
  from assms obtain i where i: "i < length outs" "outs ! i = Inl err"
    by (auto simp: in_set_conv_nth)
  then have "?g i = Some err" "i \<in> set (order @ [0..<length outs])" by simp_all
  then have "err \<in> set ?es"
    unfolding in_set_map_filter by blast
  then obtain e es where es: "?es = e # es" by (cases ?es) auto
  then have "e \<in> set ?es" by simp
  then have "\<exists>j. ?g j = Some e" unfolding in_set_map_filter by blast
  then obtain j where "?g j = Some e" ..
  then have "j < length outs \<and> outs ! j = Inl e"
    by (auto split: if_splits sum.splits)
  then have "Inl e \<in> set outs"
    by (auto simp: in_set_conv_nth)
  moreover have "gather outs order = Inl e" unfolding gather_def using es by simp
  ultimately show ?thesis by blast
qed

text \<open>
  When the failures surface in the order of the tasks, the exception is that of the first
  task that raises.
\<close>

lemma map_filter_cong:
  "\<forall>x\<in>set xs. f x = g x \<Longrightarrow> List.map_filter f xs = List.map_filter g xs"
  by (induction xs) (simp_all add: List.map_filter_simps split: option.splits)

lemma map_filter_map: "List.map_filter h (map f xs) = List.map_filter (\<lambda>x. h (f x)) xs"
  by (induction xs) (simp_all add: List.map_filter_simps split: option.splits)

lemma map_filter_upt_nth:
  "List.map_filter (\<lambda>i. if i < length outs then h (outs ! i) else None) [0..<length outs] =
   List.map_filter h outs"
proof -
  have "List.map_filter (\<lambda>i. if i < length outs then h (outs ! i) else None) [0..<length outs] =
        List.map_filter (\<lambda>i. h (outs ! i)) [0..<length outs]"
    by (rule map_filter_cong) simp
  also have "\<dots> = List.map_filter h (map (\<lambda>i. outs ! i) [0..<length outs])"
    by (simp only: map_filter_map)
  also have "\<dots> = List.map_filter h outs" by (simp only: map_nth)
  finally show ?thesis .
qed

lemma gather_in_order: "gather (map Inr rs @ Inl err # post) [] = Inl err"
proof -
  let ?h = "\<lambda>out :: py_error + 'a. case out of Inl err \<Rightarrow> Some err | Inr _ \<Rightarrow> None"
  have "List.map_filter ?h (map Inr rs @ Inl err # post) = err # List.map_filter ?h post"
    by (induction rs) (simp_all add: List.map_filter_simps)
  then show ?thesis
    unfolding gather_def using map_filter_upt_nth [of "map Inr rs @ Inl err # post" ?h]
    by simp
qed

subsection \<open>The dictionary of get\_availability\<close>

lemma fold_upd_map_of:
  "fold (\<lambda>a m. m(f a \<mapsto> g a)) avs m = m ++ map_of (rev (map (\<lambda>a. (f a, g a)) avs))"
proof (induction avs arbitrary: m)
  case Nil
  show ?case by simp
next
  case (Cons a avs)
  have "fold (\<lambda>a m. m(f a \<mapsto> g a)) (a # avs) m = fold (\<lambda>a m. m(f a \<mapsto> g a)) avs (m(f a \<mapsto> g a))"
    by simp
  also have "\<dots> = m(f a \<mapsto> g a) ++ map_of (rev (map (\<lambda>a. (f a, g a)) avs))"
    by (rule Cons.IH)
  also have "m(f a \<mapsto> g a) = m ++ [f a \<mapsto> g a]" by simp
  also have "m ++ [f a \<mapsto> g a] ++ map_of (rev (map (\<lambda>a. (f a, g a)) avs))
      = m ++ map_of (rev (map (\<lambda>a. (f a, g a)) (a # avs)))"
    by (simp del: map_add_upd)
  finally show ?case .
qed

lemma dict_comp_map_of:
  "dict_comp avs = map_of (rev (map (\<lambda>a. (Dur (duration a), availability_perc a)) avs))"
  unfolding dict_comp_def fold_upd_map_of by simp

lemma dict_comp_Name: "dict_comp avs Name = None"
  unfolding dict_comp_map_of by (simp add: map_of_eq_None_iff image_iff)

lemma dom_dict_comp: "dom (dict_comp avs) = (\<lambda>a. Dur (duration a)) ` set avs"
  unfolding dict_comp_map_of by (simp add: dom_map_of_conv_image_fst image_image)

lemma dict_comp_some_entry:
  assumes "a \<in> set avs"
  shows "\<exists>a'\<in>set avs. duration a' = duration a \<and> dict_comp avs (Dur (duration a)) = Some (availability_perc a')"
proof -
  have "Dur (duration a) \<in> dom (dict_comp avs)" using assms unfolding dom_dict_comp by blast
  then obtain v where v: "dict_comp avs (Dur (duration a)) = Some v" by blast
  then have "(Dur (duration a), v) \<in> set (rev (map (\<lambda>a. (Dur (duration a), availability_perc a)) avs))"
    unfolding dict_comp_map_of by (rule map_of_SomeD)
  then obtain a' where "a' \<in> set avs" "duration a' = duration a" "v = availability_perc a'"
    by auto
  with v show ?thesis by blast
qed

lemma dict_comp_distinct:
  assumes "distinct (map duration avs)" "a \<in> set avs"
  shows "dict_comp avs (Dur (duration a)) = Some (availability_perc a)"
proof -
  have "map fst (rev (map (\<lambda>a. (Dur (duration a), availability_perc a)) avs)) = rev (map Dur (map duration avs))"
    by (simp add: rev_map comp_def)
  moreover have "distinct (map Dur (map duration avs))"
    using assms(1) by (simp add: distinct_map inj_on_def)
  ultimately have d: "distinct (map fst (rev (map (\<lambda>a. (Dur (duration a), availability_perc a)) avs)))"
    by simp
  have "(Dur (duration a), availability_perc a) \<in> set (rev (map (\<lambda>a. (Dur (duration a), availability_perc a)) avs))"
    using assms(2) by auto
  then show ?thesis unfolding dict_comp_map_of using d by (simp only: map_of_eq_Some_iff)
qed

text \<open>
  The fetch on a list, for any console. If the list is empty, the fetch hands the line
  \<^verbatim>\<open>[red]\<close>, the name of the device and \<^verbatim>\<open> issue in LibreNMS\<close> to the console as
  markup; it raises what the console raises, and otherwise returns \<^verbatim>\<open>None\<close> with the
  line the console made of it. If the list is not empty, it returns one dictionary, with
  the device's name under \<^verbatim>\<open>"Name"\<close> and one key for the duration of every entry of the
  list. The value under a duration is the percentage of an entry of that duration, of the
  entry itself when the durations of the list are distinct. On a list both variants of the
  script fetch alike.
\<close>

lemma fetch_absent_or_record:
  assumes "http_get (request_url e dev) (request_headers e) = Inr (JArray list_of_avails)"
  shows "(list_of_avails = [] \<longrightarrow>
            get_availability console_print e http_get dev =
              (case console_print (''[red]'' @ name dev @ '' issue in LibreNMS'') of
                 Inl err \<Rightarrow> ([], Inl err)
               | Inr line \<Rightarrow> ([line], Inr None))) \<and>
         (list_of_avails \<noteq> [] \<longrightarrow>
            (\<exists>r. get_availability console_print e http_get dev = ([], Inr (Some r)) \<and>
                 r Name = Some (name dev) \<and>
                 dom r = insert Name ((\<lambda>a. Dur (duration a)) ` set list_of_avails) \<and>
                 (\<forall>a\<in>set list_of_avails. \<exists>a'\<in>set list_of_avails.
                     duration a' = duration a \<and> r (Dur (duration a)) = Some (availability_perc a')) \<and>
                 (distinct (map duration list_of_avails) \<longrightarrow>
                    (\<forall>a\<in>set list_of_avails. r (Dur (duration a)) = Some (availability_perc a))))) \<and>
         get_availability_async console_print e http_get dev =
           get_availability console_print e http_get dev"
proof (intro conjI impI)
  assume "list_of_avails = []"
  then show "get_availability console_print e http_get dev =
              (case console_print (''[red]'' @ name dev @ '' issue in LibreNMS'') of
                 Inl err \<Rightarrow> ([], Inl err)
               | Inr line \<Rightarrow> ([line], Inr None))"
    using assms by (simp add: get_availability_list [of http_get e dev list_of_avails] print_issue_def)
next
  assume ne: "list_of_avails \<noteq> []"
  let ?r = "[Name \<mapsto> name dev] ++ dict_comp list_of_avails"
  have 1: "get_availability console_print e http_get dev = ([], Inr (Some ?r))"
    using ne assms by (simp add: get_availability_list [of http_get e dev list_of_avails])
  have 2: "?r Name = Some (name dev)"
    by (simp add: map_add_def dict_comp_Name)
  have 3: "dom ?r = insert Name ((\<lambda>a. Dur (duration a)) ` set list_of_avails)"
    by (simp add: dom_dict_comp)
  have k: "?r (Dur k) = dict_comp list_of_avails (Dur k)" for k
    by (simp add: map_add_def split: option.splits)
  have 4: "\<forall>a\<in>set list_of_avails. \<exists>a'\<in>set list_of_avails.
             duration a' = duration a \<and> ?r (Dur (duration a)) = Some (availability_perc a')"
    unfolding k using dict_comp_some_entry by blast
  have 5: "distinct (map duration list_of_avails) \<longrightarrow>
             (\<forall>a\<in>set list_of_avails. ?r (Dur (duration a)) = Some (availability_perc a))"
    unfolding k using dict_comp_distinct by blast
  show "\<exists>r. get_availability console_print e http_get dev = ([], Inr (Some r)) \<and>
                 r Name = Some (name dev) \<and>
                 dom r = insert Name ((\<lambda>a. Dur (duration a)) ` set list_of_avails) \<and>
                 (\<forall>a\<in>set list_of_avails. \<exists>a'\<in>set list_of_avails.
                     duration a' = duration a \<and> r (Dur (duration a)) = Some (availability_perc a')) \<and>
                 (distinct (map duration list_of_avails) \<longrightarrow>
                    (\<forall>a\<in>set list_of_avails. r (Dur (duration a)) = Some (availability_perc a)))"
    by (intro exI [of _ ?r] conjI; fact)
next
  show "get_availability_async console_print e http_get dev =
          get_availability console_print e http_get dev"
    using assms
    by (simp add: get_availability_list [of http_get e dev list_of_avails]
        get_availability_async_list [of http_get e dev list_of_avails])
qed

subsection \<open>The lists of average\_availability\<close>

lemma floats_of_filter:
  "floats_of pf k (filter (\<lambda>r. r \<noteq> None) results) = floats_of pf k results"
  by (induction pf k results rule: floats_of.induct) (simp_all split: option.splits sum.splits)

lemma floats_of_no_records:
  "\<forall>r\<in>set results. r = None \<Longrightarrow> floats_of pf k results = Inr []"
  by (induction pf k results rule: floats_of.induct) simp_all

lemma floats_of_missing_key:
  "Some r \<in> set results \<Longrightarrow> r (Dur k) = None \<Longrightarrow> \<exists>err. floats_of pf k results = Inl err"
proof (induction pf k results rule: floats_of.induct)
  case (1 pyfloat k)
  then show ?case by simp
next
  case (2 pyfloat k results)
  then show ?case by simp
next
  case (3 pyfloat k result results)
  show ?case
  proof (cases "r = result")
    case True
    then show ?thesis using "3.prems" by simp
  next
    case False
    then have "Some r \<in> set results" using "3.prems" by simp
    show ?thesis
    proof (cases "result (Dur k)")
      case None
      then show ?thesis by simp
    next
      case (Some s)
      show ?thesis
      proof (cases "pyfloat s")
        case (Inl e)
        then show ?thesis using Some by simp
      next
        case (Inr x)
        from "3.IH" [OF Some Inr \<open>Some r \<in> set results\<close> "3.prems"(2)]
        obtain err where "floats_of pyfloat k results = Inl err" ..
        then show ?thesis using Some Inr by simp
      qed
    qed
  qed
qed



subsection \<open>The averages\<close>

lemma average_availability_filter:
  "average_availability pyfloat (filter (\<lambda>r. r \<noteq> None) results) =
     average_availability pyfloat results"
  by (simp only: average_availability_def floats_of_filter)


lemma average_availability_Inr:
  assumes "average_availability pyfloat results = Inr rep"
      and "k \<in> {86400, 604800, 2592000, 31536000}"
  shows "\<exists>xs. floats_of pyfloat k results = Inr xs"
proof -
  from assms(1) have "(\<exists>xs. floats_of pyfloat 86400 results = Inr xs) \<and>
      (\<exists>xs. floats_of pyfloat 604800 results = Inr xs) \<and>
      (\<exists>xs. floats_of pyfloat 2592000 results = Inr xs) \<and>
      (\<exists>xs. floats_of pyfloat 31536000 results = Inr xs)"
    unfolding average_availability_def
    by (cases "floats_of pyfloat 86400 results"; cases "floats_of pyfloat 604800 results";
        cases "floats_of pyfloat 2592000 results"; cases "floats_of pyfloat 31536000 results")
       simp_all
  with assms(2) show ?thesis by auto
qed

lemma average_availability_raises:
  assumes "k \<in> {86400, 604800, 2592000, 31536000}" "floats_of pyfloat k results = Inl err"
  shows "\<exists>err'. average_availability pyfloat results = Inl err'"
proof (cases "average_availability pyfloat results")
  case (Inl err')
  then show ?thesis by blast
next
  case (Inr rep)
  from average_availability_Inr [OF Inr assms(1)] assms(2) show ?thesis by simp
qed

lemma average_availability_no_records:
  assumes "\<forall>r\<in>set results. r = None"
  shows "average_availability pyfloat results = Inl ZeroDivisionError"
  unfolding average_availability_def
  by (simp add: floats_of_no_records [OF assms] average_def)

subsection \<open>The two schedulers\<close>

lemma multi_proc_returns:
  "map (\<lambda>dev. snd (f dev)) ds = map Inr rs \<Longrightarrow>
   multi_proc descr f ds (Some rs0) =
     (Inr (), Some (rs0 @ rs), \<lparr>description = descr, total = length ds, completed = length ds\<rparr>)"
  unfolding multi_proc_def by (simp add: for_imap_returns)

lemma multi_proc_raises:
  "map (\<lambda>dev. snd (f dev)) pre = map Inr rs \<Longrightarrow> snd (f d) = Inl err \<Longrightarrow>
   multi_proc descr f (pre @ d # post) (Some rs0) =
     (Inl err, Some (rs0 @ rs),
      \<lparr>description = descr, total = length (pre @ d # post), completed = length pre\<rparr>)"
  unfolding multi_proc_def by (simp add: for_imap_raises)

lemma completed_advance_present:
  "advance_present rs t = t\<lparr>completed := completed t + length (filter (\<lambda>r. r \<noteq> None) rs)\<rparr>"
  unfolding advance_present_def by (induction rs arbitrary: t) simp_all

lemma multi_async_returns:
  "map (\<lambda>dev. snd (f dev)) ds = map Inr rs \<Longrightarrow>
   multi_async descr f ds order =
     (Inr rs, \<lparr>description = descr, total = length ds,
               completed = length (filter (\<lambda>r. r \<noteq> None) rs)\<rparr>)"
  unfolding multi_async_def by (simp add: gather_returns completed_advance_present)

lemma multi_async_raises:
  assumes "snd (f d) = Inl err" "d \<in> set ds"
  shows "\<exists>err'. multi_async descr f ds order =
           (Inl err', \<lparr>description = descr, total = length ds, completed = 0\<rparr>)"
proof -
  have "Inl err \<in> set (map (\<lambda>dev. snd (f dev)) ds)" using assms by force
  from gather_raises [OF this, of order]
  obtain err' where "gather (map (\<lambda>dev. snd (f dev)) ds) order = Inl err'" by blast
  then show ?thesis unfolding multi_async_def by simp
qed

lemma multi_async_in_order:
  assumes "map (\<lambda>dev. snd (f dev)) pre = map Inr rs" "snd (f d) = Inl err"
  shows "fst (multi_async descr f (pre @ d # post) []) = Inl err"
proof -
  have "map (\<lambda>dev. snd (f dev)) (pre @ d # post) =
        map Inr rs @ Inl err # map (\<lambda>dev. snd (f dev)) post"
    using assms by simp
  then show ?thesis unfolding multi_async_def by (simp add: gather_in_order)
qed

text \<open>The scheduler of asyncio depends on the fetches of the devices of the list only.\<close>

lemma multi_async_cong:
  assumes "\<forall>dev\<in>set ds. f dev = g dev"
  shows "multi_async descr f ds order = multi_async descr g ds order"
proof -
  have eq: "map (\<lambda>dev. snd (f dev)) ds = map (\<lambda>dev. snd (g dev)) ds"
    using assms by simp
  show ?thesis unfolding multi_async_def eq by (rule refl)
qed

text \<open>The asyncio variant advances for the dictionaries only.\<close>

lemma multi_async_progress:
  "map (\<lambda>dev. snd (task_item dev)) device_list = map Inr rs \<Longrightarrow>
   completed (snd (multi_async descr task_item device_list order)) =
     length (filter (\<lambda>r. r \<noteq> None) rs)"
  by (simp add: multi_async_returns)

subsection \<open>The two runs\<close>

lemma main_proc_returns:
  "map (\<lambda>dev. snd (get_availability c e http_get dev)) ds = map Inr rs \<Longrightarrow>
   main_proc (Inr ds) c e http_get pyfloat =
     (average_availability pyfloat rs,
      Some \<lparr>description = ''[cyan]Requesting Device Availability...'', total = length ds,
             completed = length ds\<rparr>)"
  unfolding main_proc_def by (simp add: multi_proc_returns)

lemma main_async_returns:
  "map (\<lambda>dev. snd (get_availability_async c e http_get dev)) ds = map Inr rs \<Longrightarrow>
   main_async (Inr ds) c e http_get pyfloat order =
     (average_availability pyfloat rs,
      Some \<lparr>description = ''[cyan]Requesting Device Availability...'', total = length ds,
             completed = length (filter (\<lambda>r. r \<noteq> None) rs)\<rparr>)"
  unfolding main_async_def by (simp add: multi_async_returns)

lemma main_proc_raises:
  "map (\<lambda>dev. snd (get_availability c e http_get dev)) pre = map Inr rs \<Longrightarrow>
   snd (get_availability c e http_get d) = Inl err \<Longrightarrow>
   fst (main_proc (Inr (pre @ d # post)) c e http_get pyfloat) = Inl err"
  unfolding main_proc_def by (simp add: multi_proc_raises)

lemma main_async_raises:
  assumes "snd (get_availability_async c e http_get d) = Inl err" "d \<in> set ds"
  shows "\<exists>err'. fst (main_async (Inr ds) c e http_get pyfloat order) = Inl err'"
proof -
  from multi_async_raises [of "get_availability_async c e http_get" d err ds
      "''[cyan]Requesting Device Availability...''" order, OF assms]
  show ?thesis unfolding main_async_def by auto
qed

lemma main_async_in_order:
  assumes "map (\<lambda>dev. snd (get_availability_async c e http_get dev)) pre = map Inr rs"
      and "snd (get_availability_async c e http_get d) = Inl err"
  shows "fst (main_async (Inr (pre @ d # post)) c e http_get pyfloat []) = Inl err"
proof -
  from multi_async_in_order [of "get_availability_async c e http_get" pre rs d err
      "''[cyan]Requesting Device Availability...''" post, OF assms]
  show ?thesis unfolding main_async_def by (auto split: prod.splits sum.splits)
qed

text \<open>
  Where no response is \<^verbatim>\<open>null\<close>, \<^verbatim>\<open>false\<close> or 0, the run of asyncio is the run with
  the fetcher of the pool variant in its place.
\<close>

lemma main_async_fetcher:
  assumes "\<forall>dev\<in>set ds. http_get (request_url e dev) (request_headers e) \<notin>
             {Inr JNull, Inr (JBool False), Inr (JNumber 0)}"
  shows "map (\<lambda>dev. snd (get_availability_async c e http_get dev)) ds =
         map (\<lambda>dev. snd (get_availability c e http_get dev)) ds"
  using assms by (simp add: get_availability_async_eq)

subsection \<open>Floats\<close>

lemma bits_numeral [simp]: "bits (numeral k) = Suc (bits (numeral k div 2))"
  by (subst bits.simps) simp

lemma bits_0 [simp]: "bits 0 = 0"
  by (subst bits.simps) simp

lemma bits_1 [simp]: "bits (Suc 0) = Suc 0"
  by (subst bits.simps) simp

lemma floor_rat_numeral: "\<lfloor>numeral a / numeral b :: rat\<rfloor> = numeral a div numeral b"
  using floor_divide_of_int_eq [of "numeral a" "numeral b", where ?'a = rat] by simp

lemma ceiling_rat_numeral: "\<lceil>numeral a / numeral b :: rat\<rceil> = - (- numeral a div numeral b)"
  using floor_divide_of_int_eq [of "- numeral a" "numeral b", where ?'a = rat]
  by (simp add: ceiling_def)

lemmas float_eval =
  b64_def ilog2_def pow2_def round_even_def Let_def floor_rat_numeral ceiling_rat_numeral

lemma round_even_error: "\<bar>of_int (round_even y) - y\<bar> \<le> 1 / 2"
proof -
  have "of_int \<lfloor>y\<rfloor> \<le> y" "y < of_int \<lfloor>y\<rfloor> + 1" by linarith+
  then show ?thesis
    unfolding round_even_def Let_def by (auto simp: abs_le_iff)
qed

lemma bits_le: "n < 2 ^ k \<Longrightarrow> bits n \<le> k"
proof (induction k arbitrary: n)
  case 0
  then show ?case by (simp add: bits.simps)
next
  case (Suc k)
  show ?case
  proof (cases "n = 0")
    case True
    then show ?thesis by (simp add: bits.simps)
  next
    case False
    from Suc.prems have "n div 2 < 2 ^ k" by simp
    from Suc.IH [OF this] False show ?thesis by (subst bits.simps) simp
  qed
qed

lemma ilog2_le:
  assumes "0 < x" "x < 2 ^ Suc k"
  shows "ilog2 x \<le> int k"
proof (cases "1 \<le> x")
  case True
  from assms(2) have "\<lfloor>x\<rfloor> < 2 ^ Suc k" by (simp add: floor_less_iff)
  moreover from True have "0 \<le> \<lfloor>x\<rfloor>" by simp
  ultimately have "nat \<lfloor>x\<rfloor> < 2 ^ Suc k"
    by (simp add: nat_less_iff)
  from bits_le [OF this] True show ?thesis by (simp add: ilog2_def)
next
  case False
  then show ?thesis by (simp add: ilog2_def)
qed

lemma pow2_pos: "0 < pow2 e"
  by (simp add: pow2_def)

lemma pow2_le:
  assumes "e \<le> - int k"
  shows "pow2 e \<le> 1 / 2 ^ k"
proof -
  from assms have "k \<le> nat (- e)" by simp
  then have "(2::rat) ^ k \<le> 2 ^ nat (- e)" by (intro power_increasing) simp_all
  then have "1 / (2::rat) ^ nat (- e) \<le> 1 / 2 ^ k" by (simp add: frac_le)
  moreover have "pow2 e = 1 / 2 ^ nat (- e)"
  proof (cases "0 \<le> e")
    case True
    with assms have "e = 0" by simp
    then show ?thesis by (simp add: pow2_def)
  next
    case False
    then show ?thesis by (simp add: pow2_def)
  qed
  ultimately show ?thesis by simp
qed

text \<open>Below 128 a float is within \<open>2 ^ - 47\<close> of the number it stands for.\<close>

lemma b64_near:
  assumes "0 \<le> x" "x < 128"
  shows "\<exists>y. b64 x = Fin y \<and> \<bar>y - x\<bar> \<le> 1 / 2 ^ 47"
proof (cases "x = 0")
  case True
  then show ?thesis by (simp add: b64_def)
next
  case False
  with assms have pos: "0 < x" by simp
  define e where "e = max (ilog2 \<bar>x\<bar> - 52) (- 1074)"
  define m where "m = round_even (\<bar>x\<bar> / pow2 e)"
  define y where "y = of_int m * pow2 e"
  have "x < 2 ^ Suc 6" using assms(2) by simp
  from ilog2_le [OF pos this] have "ilog2 \<bar>x\<bar> \<le> 6" using pos by simp
  then have "e \<le> - int 46" unfolding e_def by simp
  from pow2_le [OF this] have p: "pow2 e \<le> 1 / 2 ^ 46" .
  have "\<bar>of_int m - x / pow2 e\<bar> \<le> 1 / 2"
    unfolding m_def using round_even_error [of "\<bar>x\<bar> / pow2 e"] pos by simp
  then have "\<bar>of_int m - x / pow2 e\<bar> * pow2 e \<le> 1 / 2 * pow2 e"
    using pow2_pos [of e] by (simp add: mult_right_mono)
  moreover have "\<bar>of_int m - x / pow2 e\<bar> * pow2 e = \<bar>y - x\<bar>"
  proof -
    have "\<bar>of_int m - x / pow2 e\<bar> * pow2 e = \<bar>(of_int m - x / pow2 e) * pow2 e\<bar>"
      using pow2_pos [of e] by (simp add: abs_mult)
    also have "(of_int m - x / pow2 e) * pow2 e = y - x"
      unfolding y_def using pow2_pos [of e] by (simp add: field_simps)
    finally show ?thesis .
  qed
  ultimately have "\<bar>y - x\<bar> \<le> 1 / 2 * pow2 e" by simp
  also have "\<dots> \<le> 1 / 2 * (1 / 2 ^ 46)" using p by simp
  also have "\<dots> = 1 / 2 ^ 47" by simp
  finally have near: "\<bar>y - x\<bar> \<le> 1 / 2 ^ 47" .
  have "(1::rat) / 2 ^ 47 \<le> 1" by simp
  with near have "\<bar>y - x\<bar> \<le> 1" by (rule order_trans)
  with assms(2) have "y < 129" by linarith
  moreover have "(129::rat) \<le> 2 ^ 1024"
  proof -
    have "(2::rat) ^ 8 \<le> 2 ^ 1024" by (intro power_increasing) simp_all
    then show ?thesis by simp
  qed
  ultimately have "\<not> pow2 1024 \<le> y" by (simp add: pow2_def)
  then have "b64 x = Fin y"
    using False pos unfolding b64_def e_def [symmetric] Let_def m_def [symmetric] y_def [symmetric]
    by simp
  with near show ?thesis by blast
qed

text \<open>A float within \<open>2 ^ - 47\<close> of a number of six decimals rounds to it at six decimals.\<close>

lemma six_decimals:
  fixes y :: rat
  assumes "\<bar>y - of_int n / 10 ^ 6\<bar> \<le> 1 / 2 ^ 47"
  shows "round (y * 10 ^ 6) = n"
proof -
  define a where "a = y * 10 ^ 6"
  have "\<bar>y * 10 ^ 6 - of_int n\<bar> = \<bar>y - of_int n / 10 ^ 6\<bar> * 10 ^ 6"
    by (simp add: abs_mult [symmetric] field_simps)
  also have "\<dots> \<le> 1 / 2 ^ 47 * 10 ^ 6"
    using assms by (intro mult_right_mono) simp_all
  also have "\<dots> < (1::rat) / 2" by simp
  finally have "\<bar>a - of_int n\<bar> < 1 / 2" unfolding a_def .
  then have "a - 1 / 2 < of_int n" "of_int n \<le> a + 1 / 2" by linarith+
  then have "round a = n" by (rule round_unique)
  then show ?thesis unfolding a_def .
qed

subsection \<open>float on a string\<close>

lemma floatnumber_Nil: "floatnumber [] = None"
  by (simp add: floatnumber_def number_def digitpart_def)

lemma floatnumber_head:
  "floatnumber (c # cs) = Some v \<Longrightarrow> c \<in> set ''0123456789.''"
  by (auto simp: floatnumber_def number_def digitpart_def digit_of_def
      split: option.splits if_splits)

lemma floatnumber_nonneg: "floatnumber s = Some v \<Longrightarrow> 0 \<le> v"
  by (auto simp: floatnumber_def number_def split: option.splits list.splits if_splits)

text \<open>A text that reads as a number is no \<^verbatim>\<open>inf\<close> and no \<^verbatim>\<open>nan\<close>.\<close>

lemma absfloatvalue_number:
  assumes "floatnumber s = Some v"
  shows "absfloatvalue False s = Inr (b64 v)"
proof -
  from assms obtain c cs where s: "s = c # cs" by (cases s) (simp_all add: floatnumber_Nil)
  with assms have "c \<in> set ''0123456789.''" by (simp only: floatnumber_head)
  then have "lower c \<noteq> CHR ''i''" "lower c \<noteq> CHR ''n''"
    by (auto simp: lower_def)
  then have "map lower s \<noteq> ''inf''" "map lower s \<noteq> ''infinity''" "map lower s \<noteq> ''nan''"
    unfolding s by auto
  with assms show ?thesis by (simp add: absfloatvalue_def)
qed

text \<open>The float of an unsigned decimal number is the float nearest to the number.\<close>

lemma py_float_number:
  assumes "floatnumber (strip s) = Some v"
  shows "py_float s = Inr (b64 v)"
proof -
  from assms obtain c cs where s: "strip s = c # cs"
    by (cases "strip s") (simp_all add: floatnumber_Nil)
  with assms have "c \<in> set ''0123456789.''" by (simp only: floatnumber_head)
  then have "c \<noteq> CHR ''-''" "c \<noteq> CHR ''+''" by auto
  then have "py_float s = absfloatvalue False (strip s)"
    by (simp add: py_float_def s)
  with assms show ?thesis by (simp add: absfloatvalue_number)
qed

lemmas number_eval =
  floatnumber_def number_def digitpart_def digit_of_def exponent_def strip_def is_space_def

lemma number_examples:
  "floatnumber (strip ''100.000000'') = Some 100"
  "floatnumber (strip ''99.999000'') = Some (99999 / 1000)"
  "floatnumber (strip ''99.996000'') = Some (24999 / 250)"
  "floatnumber (strip ''99.993000'') = Some (99993 / 1000)"
  "floatnumber (strip ''99.989000'') = Some (99989 / 1000)"
  "floatnumber (strip ''99.990000'') = Some (9999 / 100)"
  "floatnumber (strip ''99.500000'') = Some (199 / 2)"
  "floatnumber (strip ''98.750000'') = Some (395 / 4)"
  "floatnumber (strip ''99.000000'') = Some 99"
  "floatnumber (strip ''98.500000'') = Some (197 / 2)"
  "floatnumber (strip ''97.250000'') = Some (389 / 4)"
  by (simp_all add: number_eval)

lemma b64_examples:
  "b64 100 = Fin 100"
  "b64 (99999 / 1000) = Fin (3518402024511111 / 35184372088832)"
  "b64 (24999 / 250) = Fin (7036592942789689 / 70368744177664)"
  "b64 (99993 / 1000) = Fin (1759095459139289 / 17592186044416)"
  "b64 (99989 / 1000) = Fin (3518050180790223 / 35184372088832)"
  "b64 (9999 / 100) = Fin (7036170730324623 / 70368744177664)"
  "b64 (199 / 2) = Fin (199 / 2)"
  "b64 (395 / 4) = Fin (395 / 4)"
  "b64 99 = Fin 99"
  "b64 (197 / 2) = Fin (197 / 2)"
  "b64 (389 / 4) = Fin (389 / 4)"
  by (simp_all add: float_eval)

text \<open>The percentages of the examples, as \<^verbatim>\<open>float\<close> reads them.\<close>

lemma py_float_examples:
  "py_float ''100.000000'' = Inr (Fin 100)"
  "py_float ''99.999000'' = Inr (Fin (3518402024511111 / 35184372088832))"
  "py_float ''99.996000'' = Inr (Fin (7036592942789689 / 70368744177664))"
  "py_float ''99.993000'' = Inr (Fin (1759095459139289 / 17592186044416))"
  "py_float ''99.989000'' = Inr (Fin (3518050180790223 / 35184372088832))"
  "py_float ''99.990000'' = Inr (Fin (7036170730324623 / 70368744177664))"
  "py_float ''99.500000'' = Inr (Fin (199 / 2))"
  "py_float ''98.750000'' = Inr (Fin (395 / 4))"
  "py_float ''99.000000'' = Inr (Fin 99)"
  "py_float ''98.500000'' = Inr (Fin (197 / 2))"
  "py_float ''97.250000'' = Inr (Fin (389 / 4))"
  by (simp_all only: py_float_number [OF number_examples(1)] py_float_number [OF number_examples(2)]
      py_float_number [OF number_examples(3)] py_float_number [OF number_examples(4)]
      py_float_number [OF number_examples(5)] py_float_number [OF number_examples(6)]
      py_float_number [OF number_examples(7)] py_float_number [OF number_examples(8)]
      py_float_number [OF number_examples(9)] py_float_number [OF number_examples(10)]
      py_float_number [OF number_examples(11)] b64_examples)

text \<open>Sums and means of the examples, each addition rounded.\<close>

lemma mean_examples:
  "fdiv_nat (fsum [Fin 100]) 1 = Fin 100"
  "fdiv_nat (fsum [Fin (3518402024511111 / 35184372088832)]) 1 = Fin (3518402024511111 / 35184372088832)"
  "fdiv_nat (fsum [Fin 100, Fin 100]) 2 = Fin 100"
  "fdiv_nat (fsum [Fin 100, Fin 100, Fin 100]) 3 = Fin 100"
  "fdiv_nat (fsum [Fin 100, Fin (3518050180790223 / 35184372088832)]) 2 =
     Fin (7036487389673423 / 70368744177664)"
  "fdiv_nat (fsum [Fin 100, Fin (199 / 2)]) 2 = Fin (399 / 4)"
  "fdiv_nat (fsum [Fin 100, Fin (395 / 4)]) 2 = Fin (795 / 8)"
  "fdiv_nat (fsum [Fin (3518402024511111 / 35184372088832),
      Fin (7036170730324623 / 70368744177664)]) 2 = Fin (3518243694836711 / 35184372088832)"
  "fdiv_nat (fsum [Fin (3518402024511111 / 35184372088832), Fin (7036592942789689 / 70368744177664),
      Fin (1759095459139289 / 17592186044416)]) 3 = Fin (7036592942789689 / 70368744177664)"
  "fdiv_nat (fsum [Fin (7036592942789689 / 70368744177664), Fin (1759095459139289 / 17592186044416),
      Fin (3518402024511111 / 35184372088832)]) 3 = Fin (879574117848711 / 8796093022208)"
  by (simp_all add: fsum_def float_eval)

subsection \<open>The example fetches\<close>

lemma url_examples:
  "request_url sample_env sw_a = ''https://nms/api/v0/devices/10.0.0.1/availability''"
  "request_url sample_env sw_b = ''https://nms/api/v0/devices/10.0.0.2/availability''"
  "request_url sample_env sw_c = ''https://nms/api/v0/devices/10.0.0.3/availability''"
  "request_url sample_env sw_d = ''https://nms/api/v0/devices/10.0.0.4/availability''"
  "request_url sample_env sw_e = ''https://nms/api/v0/devices/10.0.0.5/availability''"
  "request_url sample_env sw_f = ''https://nms/api/v0/devices/10.0.0.6/availability''"
  "request_url sample_env sw_g = ''https://nms/api/v0/devices/10.0.0.7/availability''"
  "request_url sample_env sw_n = ''https://nms/api/v0/devices/10.0.0.8/availability''"
  "request_url sample_env sw_j = ''https://nms/api/v0/devices/10.0.0.9/availability''"
  by (simp_all add: request_url_def device_ip_def sample_env_def sw_a_def sw_b_def sw_c_def
      sw_d_def sw_e_def sw_f_def sw_g_def sw_n_def sw_j_def)

lemma http_examples:
  "sample_http (request_url sample_env sw_a) hs = Inr (JArray sample_response)"
  "sample_http (request_url sample_env sw_b) hs = Inr (JArray [])"
  "sample_http (request_url sample_env sw_c) hs = Inl ConnectionError"
  "sample_http (request_url sample_env sw_d) hs = Inr (JArray short_response)"
  "sample_http (request_url sample_env sw_e) hs = Inr (JArray [])"
  "sample_http (request_url sample_env sw_f) hs = Inr (JArray full_response)"
  "sample_http (request_url sample_env sw_g) hs = Inr (JArray [])"
  "sample_http (request_url sample_env sw_n) hs = Inr JNull"
  "sample_http (request_url sample_env sw_j) hs = Inl JSONDecodeError"
  unfolding url_examples by (simp_all add: sample_http_def)

lemma console_examples:
  "print_issue sample_console sw_b = ([''sw-b issue in LibreNMS''], Inr None)"
  "print_issue sample_console sw_e = ([], Inl MarkupError)"
  "print_issue sample_console sw_g = ([''sw issue in LibreNMS''], Inr None)"
  "print_issue sample_console sw_n = ([''sw-n issue in LibreNMS''], Inr None)"
  by (simp_all add: print_issue_def sample_console_def sw_b_def sw_e_def sw_g_def sw_n_def)

lemma record_examples:
  "[Name \<mapsto> name sw_a] ++ dict_comp sample_response = sample_availability(Name \<mapsto> ''sw-a'')"
  "[Name \<mapsto> name sw_d] ++ dict_comp short_response = short_availability"
  "[Name \<mapsto> name sw_f] ++ dict_comp full_response = full_availability"
  by (rule ext, simp add: dict_comp_def sample_response_def sample_availability_def
      short_response_def short_availability_def full_response_def full_availability_def
      sw_a_def sw_d_def sw_f_def map_add_def)+

lemma response_examples:
  "sample_response \<noteq> []" "short_response \<noteq> []" "full_response \<noteq> []"
  by (simp_all add: sample_response_def short_response_def full_response_def)

lemma fetch_examples:
  "get_availability sample_console sample_env sample_http sw_a =
     ([], Inr (Some (sample_availability(Name \<mapsto> ''sw-a''))))"
  "get_availability sample_console sample_env sample_http sw_b =
     ([''sw-b issue in LibreNMS''], Inr None)"
  "get_availability sample_console sample_env sample_http sw_c = ([], Inl ConnectionError)"
  "get_availability sample_console sample_env sample_http sw_d = ([], Inr (Some short_availability))"
  "get_availability sample_console sample_env sample_http sw_e = ([], Inl MarkupError)"
  "get_availability sample_console sample_env sample_http sw_f = ([], Inr (Some full_availability))"
  "get_availability sample_console sample_env sample_http sw_g =
     ([''sw issue in LibreNMS''], Inr None)"
  "get_availability sample_console sample_env sample_http sw_n = ([], Inl TypeError)"
  "get_availability sample_console sample_env sample_http sw_j = ([], Inl JSONDecodeError)"
  by (simp_all add: get_availability_def build_availability_def http_examples console_examples
      record_examples response_examples)

lemma fetch_async_examples:
  "get_availability_async sample_console sample_env sample_http sw_a =
     ([], Inr (Some (sample_availability(Name \<mapsto> ''sw-a''))))"
  "get_availability_async sample_console sample_env sample_http sw_b =
     ([''sw-b issue in LibreNMS''], Inr None)"
  "get_availability_async sample_console sample_env sample_http sw_c = ([], Inl ConnectionError)"
  "get_availability_async sample_console sample_env sample_http sw_d =
     ([], Inr (Some short_availability))"
  "get_availability_async sample_console sample_env sample_http sw_e = ([], Inl MarkupError)"
  "get_availability_async sample_console sample_env sample_http sw_f =
     ([], Inr (Some full_availability))"
  "get_availability_async sample_console sample_env sample_http sw_g =
     ([''sw issue in LibreNMS''], Inr None)"
  "get_availability_async sample_console sample_env sample_http sw_n =
     ([''sw-n issue in LibreNMS''], Inr None)"
  "get_availability_async sample_console sample_env sample_http sw_j = ([], Inl JSONDecodeError)"
  by (simp_all add: get_availability_async_def build_availability_def http_examples
      console_examples record_examples response_examples)

lemma snd_fetch_examples:
  "snd (get_availability sample_console sample_env sample_http sw_a) =
     Inr (Some (sample_availability(Name \<mapsto> ''sw-a'')))"
  "snd (get_availability sample_console sample_env sample_http sw_b) = Inr None"
  "snd (get_availability sample_console sample_env sample_http sw_c) = Inl ConnectionError"
  "snd (get_availability sample_console sample_env sample_http sw_d) = Inr (Some short_availability)"
  "snd (get_availability sample_console sample_env sample_http sw_e) = Inl MarkupError"
  "snd (get_availability sample_console sample_env sample_http sw_f) = Inr (Some full_availability)"
  "snd (get_availability sample_console sample_env sample_http sw_g) = Inr None"
  "snd (get_availability sample_console sample_env sample_http sw_n) = Inl TypeError"
  "snd (get_availability sample_console sample_env sample_http sw_j) = Inl JSONDecodeError"
  by (simp_all add: fetch_examples)

lemma snd_fetch_async_examples:
  "snd (get_availability_async sample_console sample_env sample_http sw_a) =
     Inr (Some (sample_availability(Name \<mapsto> ''sw-a'')))"
  "snd (get_availability_async sample_console sample_env sample_http sw_b) = Inr None"
  "snd (get_availability_async sample_console sample_env sample_http sw_c) = Inl ConnectionError"
  "snd (get_availability_async sample_console sample_env sample_http sw_d) =
     Inr (Some short_availability)"
  "snd (get_availability_async sample_console sample_env sample_http sw_e) = Inl MarkupError"
  "snd (get_availability_async sample_console sample_env sample_http sw_f) =
     Inr (Some full_availability)"
  "snd (get_availability_async sample_console sample_env sample_http sw_g) = Inr None"
  "snd (get_availability_async sample_console sample_env sample_http sw_n) = Inr None"
  "snd (get_availability_async sample_console sample_env sample_http sw_j) = Inl JSONDecodeError"
  by (simp_all add: fetch_async_examples)

text \<open>A device whose fetch raises in the pool variant and returns in the asyncio variant.\<close>

lemma pool_raises_async_returns:
  "snd (get_availability sample_console sample_env sample_http sw_n) = Inl TypeError \<and>
   fst (multi_async ''d'' (get_availability_async sample_console sample_env sample_http)
      [sw_a, sw_n] [0, 1]) = Inr [Some (sample_availability(Name \<mapsto> ''sw-a'')), None]"
proof -
  have "map (\<lambda>dev. snd (get_availability_async sample_console sample_env sample_http dev))
      [sw_a, sw_n] = map Inr [Some (sample_availability(Name \<mapsto> ''sw-a'')), None]"
    by (simp add: snd_fetch_async_examples)
  from multi_async_returns [OF this, of "''d''" "[0, 1]"] show ?thesis
    by (simp add: snd_fetch_examples)
qed

subsection \<open>The example averages\<close>

lemma average_examples:
  "average_availability py_float [Some (sample_availability(Name \<mapsto> ''sw-a''))] =
     Inr \<lparr>day = Fin 100, week = Fin 100, month = Fin 100,
          year = Fin (3518402024511111 / 35184372088832)\<rparr>"
  "average_availability py_float [Some (sample_availability(Name \<mapsto> ''sw-a'')), None] =
     Inr \<lparr>day = Fin 100, week = Fin 100, month = Fin 100,
          year = Fin (3518402024511111 / 35184372088832)\<rparr>"
  "average_availability py_float
     [Some (sample_availability(Name \<mapsto> ''sw-a'')), None, Some full_availability] =
     Inr \<lparr>day = Fin (7036487389673423 / 70368744177664), week = Fin (399 / 4),
          month = Fin (795 / 8), year = Fin (3518243694836711 / 35184372088832)\<rparr>"
  by (simp_all add: average_availability_def average_def sample_availability_def
      full_availability_def py_float_examples fsum_def float_eval)

section \<open>The claims\<close>

subsection \<open>C8: one fetch\<close>

text \<open>
  C8. The specification states that, when the list of a device is empty, the fetch returns
  \<^verbatim>\<open>None\<close>, prints a warning that names the device, and raises nothing. The scripts
  put the name into the markup of the line as it is. For the device named \<^verbatim>\<open>a[/b]\<close>,
  whose list is empty, both variants raise \<^verbatim>\<open>MarkupError\<close> and return nothing; for the
  device named \<^verbatim>\<open>sw[core]\<close> the fetch returns \<^verbatim>\<open>None\<close> and the line printed names
  \<^verbatim>\<open>sw\<close>.
\<close>

theorem empty_list_markup_error:
  "name sw_e = ''a[/b]'' \<and>
   sample_http (request_url sample_env sw_e) (request_headers sample_env) = Inr (JArray []) \<and>
   get_availability sample_console sample_env sample_http sw_e = ([], Inl MarkupError) \<and>
   get_availability_async sample_console sample_env sample_http sw_e = ([], Inl MarkupError) \<and>
   name sw_g = ''sw[core]'' \<and>
   sample_http (request_url sample_env sw_g) (request_headers sample_env) = Inr (JArray []) \<and>
   get_availability sample_console sample_env sample_http sw_g =
     ([''sw issue in LibreNMS''], Inr None)"
  by (simp add: fetch_examples fetch_async_examples http_examples) (simp add: sw_e_def sw_g_def)

subsection \<open>C1: a fetch that raises\<close>

text \<open>
  C1 as the specification states it: when the fetch of one device fails, the fetches of the
  remaining devices are still completed and the run still produces its averages from the
  successful records. The scripts do not: a device that cannot be reached ends the loop
  of \<open>multi_proc\<close> before the device after it, and both runs end with the exception.
\<close>

theorem failure_aborts_batch_counterexample:
  "multi_proc ''d'' (get_availability sample_console sample_env sample_http) [sw_c, sw_a] (Some []) =
     (Inl ConnectionError, Some [], \<lparr>description = ''d'', total = 2, completed = 0\<rparr>) \<and>
   fst (main_proc (Inr [sw_c, sw_a]) sample_console sample_env sample_http py_float) =
     Inl ConnectionError \<and>
   fst (main_async (Inr [sw_c, sw_a]) sample_console sample_env sample_http py_float [0, 1]) =
     Inl ConnectionError"
  by (simp add: multi_proc_def main_proc_def main_async_def multi_async_def gather_def
      snd_fetch_examples snd_fetch_async_examples List.map_filter_simps)

text \<open>
  C1, amended. A fetch that raises ends the batch. In \<open>multi_proc\<close> the exception of the
  first device whose fetch raises is raised, \<^verbatim>\<open>results\<close> holds the results of the devices
  before it only, the progress task has advanced for these only, and the run ends with
  that exception and no averages. In the asyncio variant, when the fetch of that variant
  raises for the device, \<open>multi_async\<close> raises an exception as well and the run ends with
  it and no averages. (The two fetches of a device differ where the response is
  \<^verbatim>\<open>null\<close>, \<^verbatim>\<open>false\<close> or 0, on which only the fetch of the pool raises: lemmas
  \<open>get_availability_async_eq\<close> and \<open>pool_raises_async_returns\<close>.)
\<close>

theorem failure_aborts_batch:
  assumes "map (\<lambda>dev. snd (get_availability console_print e http_get dev)) pre = map Inr rs"
      and "snd (get_availability console_print e http_get d) = Inl err"
  shows "multi_proc descr (get_availability console_print e http_get) (pre @ d # post) (Some rs0) =
           (Inl err, Some (rs0 @ rs),
            \<lparr>description = descr, total = length (pre @ d # post), completed = length pre\<rparr>) \<and>
         fst (main_proc (Inr (pre @ d # post)) console_print e http_get pyfloat) = Inl err \<and>
         (snd (get_availability_async console_print e http_get d) = Inl erra \<longrightarrow>
            (\<exists>err'. fst (multi_async descr (get_availability_async console_print e http_get)
                        (pre @ d # post) order) = Inl err') \<and>
            (\<exists>err'. fst (main_async (Inr (pre @ d # post)) console_print e http_get pyfloat order)
                      = Inl err'))"
proof (intro conjI impI)
  show "multi_proc descr (get_availability console_print e http_get) (pre @ d # post) (Some rs0) =
           (Inl err, Some (rs0 @ rs),
            \<lparr>description = descr, total = length (pre @ d # post), completed = length pre\<rparr>)"
    using assms by (rule multi_proc_raises)
  show "fst (main_proc (Inr (pre @ d # post)) console_print e http_get pyfloat) = Inl err"
    using assms by (rule main_proc_raises)
  have d: "d \<in> set (pre @ d # post)" by simp
  assume a: "snd (get_availability_async console_print e http_get d) = Inl erra"
  from multi_async_raises [of "get_availability_async console_print e http_get" d erra
      "pre @ d # post" descr order, OF a d]
  show "\<exists>err'. fst (multi_async descr (get_availability_async console_print e http_get)
                        (pre @ d # post) order) = Inl err'"
    by (metis fst_conv)
  from a d show "\<exists>err'. fst (main_async (Inr (pre @ d # post)) console_print e http_get pyfloat order)
                      = Inl err'"
    by (rule main_async_raises)
qed

theorem failure_aborts_batch_witness:
  "multi_proc ''d'' (get_availability sample_console sample_env sample_http) [sw_a, sw_c, sw_b] (Some []) =
     (Inl ConnectionError, Some [Some (sample_availability(Name \<mapsto> ''sw-a''))],
      \<lparr>description = ''d'', total = 3, completed = 1\<rparr>) \<and>
   fst (main_proc (Inr [sw_a, sw_c, sw_b]) sample_console sample_env sample_http py_float) =
     Inl ConnectionError \<and>
   (\<exists>err'. fst (main_async (Inr [sw_a, sw_c, sw_b]) sample_console sample_env sample_http py_float
               [2, 1, 0]) = Inl err')"
  using failure_aborts_batch [of sample_console sample_env sample_http "[sw_a]"
      "[Some (sample_availability(Name \<mapsto> ''sw-a''))]" sw_c ConnectionError "''d''" "[sw_b]" "[]"
      py_float ConnectionError "[2, 1, 0]"]
  by (simp add: snd_fetch_examples snd_fetch_async_examples)

subsection \<open>C3: the progress task\<close>

text \<open>
  C3 as the specification states it: the progress counter advances once for every device,
  whether its fetch ends in a dictionary, in \<^verbatim>\<open>None\<close> or in a failure. With a device
  that cannot be reached in the second place of three, \<open>multi_proc\<close> advances once.
\<close>

theorem progress_once_per_device_counterexample:
  "completed (snd (snd (multi_proc ''d'' (get_availability sample_console sample_env sample_http)
      [sw_a, sw_c, sw_d] (Some [])))) = 1 \<and>
   length [sw_a, sw_c, sw_d] = 3"
  by (simp add: multi_proc_def snd_fetch_examples)

text \<open>
  C3, amended. When every fetch returns, a dictionary or \<^verbatim>\<open>None\<close>, \<open>multi_proc\<close>
  returns normally and has advanced the progress task exactly once for every device: the
  count equals the number of devices, which is the task's total.
\<close>

theorem progress_once_per_device:
  assumes "map (\<lambda>dev. snd (task_item dev)) device_list = map Inr rs"
  shows "fst (multi_proc descr task_item device_list (Some rs0)) = Inr () \<and>
         completed (snd (snd (multi_proc descr task_item device_list (Some rs0)))) = length device_list \<and>
         total (snd (snd (multi_proc descr task_item device_list (Some rs0)))) = length device_list"
  by (simp add: multi_proc_returns [OF assms])

theorem progress_once_per_device_witness:
  "fst (multi_proc ''d'' (get_availability sample_console sample_env sample_http)
      [sw_a, sw_b, sw_d] (Some [])) = Inr () \<and>
   completed (snd (snd (multi_proc ''d'' (get_availability sample_console sample_env sample_http)
      [sw_a, sw_b, sw_d] (Some [])))) = 3 \<and>
   total (snd (snd (multi_proc ''d'' (get_availability sample_console sample_env sample_http)
      [sw_a, sw_b, sw_d] (Some [])))) = 3"
  using progress_once_per_device [of "get_availability sample_console sample_env sample_http"
      "[sw_a, sw_b, sw_d]"
      "[Some (sample_availability(Name \<mapsto> ''sw-a'')), None, Some short_availability]" "''d''" "[]"]
  by (simp add: snd_fetch_examples)

subsection \<open>C4: who drops the absent devices\<close>

text \<open>
  C4 as the specification states it: what the scheduler hands over holds dictionaries only,
  and no \<^verbatim>\<open>None\<close>. Both schedulers hand over a \<^verbatim>\<open>None\<close> for the device without data.
\<close>

theorem schedulers_keep_None_counterexample:
  "map_option (map (\<lambda>r. r = None))
     (fst (snd (multi_proc ''d'' (get_availability sample_console sample_env sample_http)
        [sw_a, sw_b] (Some []))))
     = Some [False, True] \<and>
   map_sum id (map (\<lambda>r. r = None))
     (fst (multi_async ''d'' (get_availability_async sample_console sample_env sample_http)
        [sw_a, sw_b] [0, 1]))
     = Inr [False, True]"
  by (simp add: multi_proc_def multi_async_def gather_def
      snd_fetch_examples snd_fetch_async_examples List.map_filter_simps)

text \<open>
  C4, amended. When every fetch returns, both schedulers hand over one entry for every
  device, in the order of the devices, and the entry of a device without data is
  \<^verbatim>\<open>None\<close>. It is \<open>average_availability\<close> that drops these entries: its value on a
  list is its value on the list without the \<^verbatim>\<open>None\<close> entries.
\<close>

theorem schedulers_keep_None:
  assumes "map (\<lambda>dev. snd (task_item dev)) device_list = map Inr rs"
  shows "fst (snd (multi_proc descr task_item device_list (Some []))) = Some rs \<and>
         fst (multi_async descr task_item device_list order) = Inr rs \<and>
         length rs = length device_list \<and>
         average_availability pyfloat rs =
           average_availability pyfloat (filter (\<lambda>r. r \<noteq> None) rs)"
proof -
  have "length (map (\<lambda>dev. snd (task_item dev)) device_list) = length (map Inr rs :: (py_error + fetched) list)"
    using assms by simp
  then have "length rs = length device_list" by simp
  moreover have "fst (snd (multi_proc descr task_item device_list (Some []))) = Some rs"
    by (simp add: multi_proc_returns [OF assms])
  moreover have "fst (multi_async descr task_item device_list order) = Inr rs"
    by (simp add: multi_async_returns [OF assms])
  ultimately show ?thesis
    by (simp only: average_availability_filter simp_thms)
qed

theorem schedulers_keep_None_witness:
  "fst (snd (multi_proc ''d'' (get_availability sample_console sample_env sample_http)
      [sw_a, sw_b] (Some [])))
     = Some [Some (sample_availability(Name \<mapsto> ''sw-a'')), None] \<and>
   fst (multi_async ''d'' (get_availability sample_console sample_env sample_http) [sw_a, sw_b] [1, 0])
     = Inr [Some (sample_availability(Name \<mapsto> ''sw-a'')), None] \<and>
   average_availability py_float [Some (sample_availability(Name \<mapsto> ''sw-a'')), None] =
     average_availability py_float [Some (sample_availability(Name \<mapsto> ''sw-a''))]"
  using schedulers_keep_None [of "get_availability sample_console sample_env sample_http"
      "[sw_a, sw_b]" "[Some (sample_availability(Name \<mapsto> ''sw-a'')), None]" "''d''" "[1, 0]"
      py_float]
  by (simp add: snd_fetch_examples)

subsection \<open>C10: the global list of multi\_proc\<close>

text \<open>
  C10 as it is stated: where no global \<^verbatim>\<open>results\<close> exists, a call of \<open>multi_proc\<close>
  raises \<^verbatim>\<open>NameError\<close>. With no device the call returns normally, and with a first
  device that cannot be reached it raises the exception of the fetch.
\<close>

theorem multi_proc_side_effect_counterexample:
  "multi_proc ''d'' (get_availability sample_console sample_env sample_http) [] None =
     (Inr (), None, \<lparr>description = ''d'', total = 0, completed = 0\<rparr>) \<and>
   fst (multi_proc ''d'' (get_availability sample_console sample_env sample_http) [sw_c, sw_a] None) =
     Inl ConnectionError"
  by (simp add: multi_proc_def snd_fetch_examples)

text \<open>
  C10, amended. \<open>multi_proc\<close> returns \<^verbatim>\<open>None\<close> and delivers by side effect: when every
  fetch returns, the global \<^verbatim>\<open>results\<close> afterwards is the list before the call followed
  by the result of every device in order, \<^verbatim>\<open>None\<close> entries included, so it is exactly
  these results when the list was empty, as in the main program. Where no global
  \<^verbatim>\<open>results\<close> exists, the call raises \<^verbatim>\<open>NameError\<close> when the first fetch returns,
  raises the exception of the first fetch when that raises, and returns normally when
  there is no device.
\<close>

theorem multi_proc_side_effect:
  "(map (\<lambda>dev. snd (task_item dev)) device_list = map Inr rs \<longrightarrow>
      multi_proc descr task_item device_list (Some rs0) =
        (Inr (), Some (rs0 @ rs),
         \<lparr>description = descr, total = length device_list, completed = length device_list\<rparr>)) \<and>
   (snd (task_item dev) = Inr r \<longrightarrow>
      multi_proc descr task_item (dev # device_list) None =
        (Inl NameError, None,
         \<lparr>description = descr, total = Suc (length device_list), completed = 0\<rparr>)) \<and>
   (snd (task_item dev) = Inl err \<longrightarrow>
      fst (multi_proc descr task_item (dev # device_list) None) = Inl err) \<and>
   multi_proc descr task_item [] None =
     (Inr (), None, \<lparr>description = descr, total = 0, completed = 0\<rparr>)"
  by (simp add: multi_proc_returns) (simp add: multi_proc_def)

theorem multi_proc_side_effect_witness:
  "multi_proc ''d'' (get_availability sample_console sample_env sample_http) [sw_a, sw_b] (Some []) =
     (Inr (), Some [Some (sample_availability(Name \<mapsto> ''sw-a'')), None],
      \<lparr>description = ''d'', total = 2, completed = 2\<rparr>) \<and>
   multi_proc ''d'' (get_availability sample_console sample_env sample_http) [sw_b, sw_a] None =
     (Inl NameError, None, \<lparr>description = ''d'', total = 2, completed = 0\<rparr>)"
proof -
  have a: "map (\<lambda>dev. snd (get_availability sample_console sample_env sample_http dev)) [sw_a, sw_b] =
             map Inr [Some (sample_availability(Name \<mapsto> ''sw-a'')), None]"
    by (simp add: snd_fetch_examples)
  have b: "snd (get_availability sample_console sample_env sample_http sw_b) = Inr None"
    by (simp add: snd_fetch_examples)
  from a multi_proc_side_effect [of "get_availability sample_console sample_env sample_http"
      "[sw_a, sw_b]" "[Some (sample_availability(Name \<mapsto> ''sw-a'')), None]" "''d''" "[]" sw_b None
      ConnectionError]
  have 1: "multi_proc ''d'' (get_availability sample_console sample_env sample_http) [sw_a, sw_b] (Some []) =
     (Inr (), Some [Some (sample_availability(Name \<mapsto> ''sw-a'')), None],
      \<lparr>description = ''d'', total = 2, completed = 2\<rparr>)"
    by simp
  from b multi_proc_side_effect [of "get_availability sample_console sample_env sample_http" "[sw_a]"
      "[]" "''d''" "[]" sw_b None ConnectionError]
  have 2: "multi_proc ''d'' (get_availability sample_console sample_env sample_http) [sw_b, sw_a] None =
     (Inl NameError, None, \<lparr>description = ''d'', total = 2, completed = 0\<rparr>)"
    by simp
  from 1 2 show ?thesis by simp
qed

subsection \<open>C2: a window without values\<close>

text \<open>
  C2 as the specification states it: when no record contains the key of a duration, the
  aggregation gives an explicit missing value for that window, raises nothing, and still
  gives the averages of the other windows. On a record without the week
  \<open>average_availability\<close> raises \<^verbatim>\<open>KeyError\<close>, and on a list without a record it raises
  \<^verbatim>\<open>ZeroDivisionError\<close>; no average is given.
\<close>

theorem empty_window_counterexample:
  "short_availability (Dur 604800) = None \<and>
   average_availability py_float [Some short_availability] = Inl KeyError \<and>
   average_availability py_float [None] = Inl ZeroDivisionError"
  by (simp add: average_availability_def average_def short_availability_def py_float_examples)

text \<open>
  C2, amended. When no record of the input contains the key of one of the four durations,
  \<open>average_availability\<close> raises and gives no average of any window; when the input has
  no record at all (it is empty, or all \<^verbatim>\<open>None\<close>), the exception is
  \<^verbatim>\<open>ZeroDivisionError\<close>.
\<close>

theorem empty_window_raises:
  assumes "k \<in> {86400, 604800, 2592000, 31536000}"
      and "\<forall>r. Some r \<in> set results \<longrightarrow> r (Dur k) = None"
  shows "(\<exists>err. average_availability pyfloat results = Inl err) \<and>
         ((\<forall>r\<in>set results. r = None) \<longrightarrow>
            average_availability pyfloat results = Inl ZeroDivisionError)"
proof (intro conjI impI)
  show "\<exists>err. average_availability pyfloat results = Inl err"
  proof (cases "\<forall>r\<in>set results. r = None")
    case True
    then show ?thesis by (simp add: average_availability_no_records)
  next
    case False
    then obtain r where r: "Some r \<in> set results" by auto
    with assms(2) have "r (Dur k) = None" by blast
    from floats_of_missing_key [OF r this]
    obtain err where "floats_of pyfloat k results = Inl err" ..
    with assms(1) show ?thesis by (rule average_availability_raises)
  qed
next
  assume "\<forall>r\<in>set results. r = None"
  then show "average_availability pyfloat results = Inl ZeroDivisionError"
    by (rule average_availability_no_records)
qed

theorem empty_window_raises_witness:
  "short_availability (Dur 604800) = None \<and>
   (\<exists>err. average_availability py_float [None, Some short_availability] = Inl err) \<and>
   average_availability py_float [None, None] = Inl ZeroDivisionError"
  using empty_window_raises [of 604800 "[None, Some short_availability]" py_float]
    empty_window_raises [of 604800 "[None, None]" py_float]
  by (simp add: short_availability_def)

subsection \<open>C5: the mean of a window\<close>




subsection \<open>C6: the inventory\<close>

text \<open>
  C6 as the specification states it: when the inventory fails or lists no device, the run
  ends with an error before any collection work starts, and no aggregation is attempted.
  With an inventory of no device the run makes the progress task of the scheduler, and
  its error is the \<^verbatim>\<open>ZeroDivisionError\<close> that \<open>average_availability\<close> raises on the
  empty list.
\<close>

theorem inventory_outcomes_counterexample:
  "snd (main_proc (Inr []) sample_console sample_env sample_http py_float) =
     Some \<lparr>description = ''[cyan]Requesting Device Availability...'', total = 0, completed = 0\<rparr> \<and>
   fst (main_proc (Inr []) sample_console sample_env sample_http py_float) =
     average_availability py_float [] \<and>
   average_availability py_float [] = Inl ZeroDivisionError"
  by (simp add: main_proc_def multi_proc_def average_availability_def average_def)

text \<open>
  C6, amended. When the inventory raises, both runs end with that exception before the
  scheduler starts: no progress task is made, nothing is fetched, nothing is aggregated.
  When the inventory lists no device, nothing is fetched (the outcome does not depend on
  \<open>http_get\<close>), but the scheduler runs, with a progress task of total 0, and the
  aggregation is attempted: the run ends with its \<^verbatim>\<open>ZeroDivisionError\<close>.
\<close>

theorem inventory_outcomes:
  "main_proc (Inl err) console_print e http_get pyfloat = (Inl err, None) \<and>
   main_async (Inl err) console_print e http_get pyfloat order = (Inl err, None) \<and>
   main_proc (Inr []) console_print e http_get pyfloat =
     (Inl ZeroDivisionError,
      Some \<lparr>description = ''[cyan]Requesting Device Availability...'', total = 0, completed = 0\<rparr>) \<and>
   main_async (Inr []) console_print e http_get pyfloat order =
     (Inl ZeroDivisionError,
      Some \<lparr>description = ''[cyan]Requesting Device Availability...'', total = 0, completed = 0\<rparr>) \<and>
   average_availability pyfloat [] = Inl ZeroDivisionError"
proof -
  have a: "average_availability pyfloat [] = Inl ZeroDivisionError"
    by (simp add: average_availability_no_records)
  have p: "map (\<lambda>dev. snd (get_availability console_print e http_get dev)) [] = map Inr []"
    by simp
  have q: "map (\<lambda>dev. snd (get_availability_async console_print e http_get dev)) [] = map Inr []"
    by simp
  from main_proc_returns [OF p, of pyfloat] main_async_returns [OF q, of pyfloat order] a
  show ?thesis by (simp add: main_proc_def main_async_def)
qed

theorem inventory_outcomes_witness:
  "main_proc (Inl ConnectionError) sample_console sample_env sample_http py_float =
     (Inl ConnectionError, None) \<and>
   main_async (Inl ConnectionError) sample_console sample_env sample_http py_float [] =
     (Inl ConnectionError, None) \<and>
   main_proc (Inr []) sample_console sample_env sample_http py_float =
     (Inl ZeroDivisionError,
      Some \<lparr>description = ''[cyan]Requesting Device Availability...'', total = 0, completed = 0\<rparr>) \<and>
   main_async (Inr []) sample_console sample_env sample_http py_float [] =
     (Inl ZeroDivisionError,
      Some \<lparr>description = ''[cyan]Requesting Device Availability...'', total = 0, completed = 0\<rparr>)"
  using inventory_outcomes [of ConnectionError sample_console sample_env sample_http py_float "[]"]
  by simp

subsection \<open>C7: the two variants\<close>

text \<open>
  C7 as the specification states it: for the same responses the two variants give the same
  report. For a device whose response holds \<^verbatim>\<open>"availability": null\<close> the run of the
  pool raises \<^verbatim>\<open>TypeError\<close>, from \<^verbatim>\<open>len(None)\<close>, and the run of asyncio takes the device
  as one without data and prints the averages of the other devices. And where two fetches
  raise, the run of the pool ends with the exception of the first device of the list and
  the run of asyncio with the one raised first in time.
\<close>

theorem variants_same_report_counterexample:
  "sample_http (request_url sample_env sw_n) (request_headers sample_env) = Inr JNull \<and>
   fst (main_proc (Inr [sw_a, sw_n]) sample_console sample_env sample_http py_float) = Inl TypeError \<and>
   fst (main_async (Inr [sw_a, sw_n]) sample_console sample_env sample_http py_float [0, 1]) =
     Inr \<lparr>day = Fin 100, week = Fin 100, month = Fin 100,
          year = Fin (3518402024511111 / 35184372088832)\<rparr> \<and>
   fst (main_proc (Inr [sw_c, sw_j]) sample_console sample_env sample_http py_float) =
     Inl ConnectionError \<and>
   fst (main_async (Inr [sw_c, sw_j]) sample_console sample_env sample_http py_float [1, 0]) =
     Inl JSONDecodeError"
proof -
  have 1: "sample_http (request_url sample_env sw_n) (request_headers sample_env) = Inr JNull"
    by (rule http_examples)
  have 2: "fst (main_proc (Inr [sw_a, sw_n]) sample_console sample_env sample_http py_float) =
      Inl TypeError"
    by (simp add: main_proc_def multi_proc_def snd_fetch_examples)
  have "map (\<lambda>dev. snd (get_availability_async sample_console sample_env sample_http dev))
          [sw_a, sw_n] = map Inr [Some (sample_availability(Name \<mapsto> ''sw-a'')), None]"
    by (simp add: snd_fetch_async_examples)
  from main_async_returns [OF this, of py_float "[0, 1]"]
  have 3: "fst (main_async (Inr [sw_a, sw_n]) sample_console sample_env sample_http py_float [0, 1]) =
     Inr \<lparr>day = Fin 100, week = Fin 100, month = Fin 100,
          year = Fin (3518402024511111 / 35184372088832)\<rparr>"
    by (simp add: average_examples)
  have 4: "fst (main_proc (Inr [sw_c, sw_j]) sample_console sample_env sample_http py_float) =
     Inl ConnectionError"
    by (simp add: main_proc_def multi_proc_def snd_fetch_examples)
  have 5: "fst (main_async (Inr [sw_c, sw_j]) sample_console sample_env sample_http py_float [1, 0]) =
     Inl JSONDecodeError"
    by (simp add: main_async_def multi_async_def gather_def snd_fetch_async_examples
        List.map_filter_simps)
  from 1 2 3 4 5 show ?thesis by (intro conjI)
qed

text \<open>
  C7, amended. For a list of devices of which no response is \<^verbatim>\<open>null\<close>, \<^verbatim>\<open>false\<close> or
  0: the run of the pool ends with a report exactly when the run of asyncio ends with the
  same report, whatever the order in which the asyncio tasks complete; when no fetch
  raises, the two runs end alike, with the same report or the same exception of the
  aggregation; and when the failures of the asyncio tasks surface in the order of the
  list, the two runs end alike in every case.
\<close>

theorem variants_same_report:
  assumes "\<forall>dev\<in>set device_list. http_get (request_url e dev) (request_headers e) \<notin>
             {Inr JNull, Inr (JBool False), Inr (JNumber 0)}"
  shows "(\<forall>rep. fst (main_proc (Inr device_list) console_print e http_get pyfloat) = Inr rep \<longleftrightarrow>
                fst (main_async (Inr device_list) console_print e http_get pyfloat order) = Inr rep) \<and>
         ((\<forall>dev\<in>set device_list. \<exists>r. snd (get_availability console_print e http_get dev) = Inr r) \<longrightarrow>
            fst (main_async (Inr device_list) console_print e http_get pyfloat order) =
            fst (main_proc (Inr device_list) console_print e http_get pyfloat)) \<and>
         fst (main_async (Inr device_list) console_print e http_get pyfloat []) =
           fst (main_proc (Inr device_list) console_print e http_get pyfloat)"
proof -
  let ?f = "\<lambda>dev. snd (get_availability console_print e http_get dev)"
  let ?g = "\<lambda>dev. snd (get_availability_async console_print e http_get dev)"
  have fg: "?g dev = ?f dev" if "dev \<in> set device_list" for dev
    using assms that by (simp add: get_availability_async_eq)
  then have maps: "map ?g ds = map ?f ds" if "set ds \<subseteq> set device_list" for ds
    using that by (induction ds) simp_all
  from fetches_cases [of ?f device_list] show ?thesis
  proof
    assume "\<exists>rs. map ?f device_list = map Inr rs"
    then obtain rs where rs: "map ?f device_list = map Inr rs" ..
    with maps [of device_list] have rs': "map ?g device_list = map Inr rs" by simp
    have "fst (main_async (Inr device_list) console_print e http_get pyfloat ord) =
          fst (main_proc (Inr device_list) console_print e http_get pyfloat)" for ord
      by (simp add: main_proc_returns [OF rs] main_async_returns [OF rs'])
    then show ?thesis by simp
  next
    assume "\<exists>pre d post rs err. device_list = pre @ d # post \<and> map ?f pre = map Inr rs \<and> ?f d = Inl err"
    then obtain pre d post rs err where ds: "device_list = pre @ d # post"
        and pre: "map ?f pre = map Inr rs" and d: "?f d = Inl err"
      by blast
    have p: "fst (main_proc (Inr device_list) console_print e http_get pyfloat) = Inl err"
      unfolding ds using pre d by (rule main_proc_raises)
    have din: "d \<in> set device_list" unfolding ds by simp
    with fg d have d': "?g d = Inl err" by simp
    have "set pre \<subseteq> set device_list" unfolding ds by auto
    from maps [OF this] pre have pre': "map ?g pre = map Inr rs" by simp
    from main_async_raises [OF d' din]
    obtain err' where a: "fst (main_async (Inr device_list) console_print e http_get pyfloat order) =
        Inl err'" ..
    have o: "fst (main_async (Inr device_list) console_print e http_get pyfloat []) = Inl err"
      unfolding ds using pre' d' by (rule main_async_in_order)
    have n: "\<not> (\<forall>dev\<in>set device_list. \<exists>r. ?f dev = Inr r)"
    proof
      assume "\<forall>dev\<in>set device_list. \<exists>r. ?f dev = Inr r"
      with din obtain r where "?f d = Inr r" by blast
      with d show False by simp
    qed
    from p a have "\<forall>rep. fst (main_proc (Inr device_list) console_print e http_get pyfloat) = Inr rep \<longleftrightarrow>
        fst (main_async (Inr device_list) console_print e http_get pyfloat order) = Inr rep"
      by simp
    moreover from n have "(\<forall>dev\<in>set device_list. \<exists>r. ?f dev = Inr r) \<longrightarrow>
        fst (main_async (Inr device_list) console_print e http_get pyfloat order) =
        fst (main_proc (Inr device_list) console_print e http_get pyfloat)"
      by blast
    moreover from p o have "fst (main_async (Inr device_list) console_print e http_get pyfloat []) =
        fst (main_proc (Inr device_list) console_print e http_get pyfloat)"
      by simp
    ultimately show ?thesis by (intro conjI)
  qed
qed

text \<open>
  Two devices with data and one without, the asyncio tasks completing in another order;
  and a list on which two fetches raise.
\<close>

theorem variants_same_report_witness:
  "fst (main_proc (Inr [sw_a, sw_b, sw_f]) sample_console sample_env sample_http py_float) =
     Inr \<lparr>day = Fin (7036487389673423 / 70368744177664), week = Fin (399 / 4),
          month = Fin (795 / 8), year = Fin (3518243694836711 / 35184372088832)\<rparr> \<and>
   fst (main_async (Inr [sw_a, sw_b, sw_f]) sample_console sample_env sample_http py_float [2, 0, 1]) =
     Inr \<lparr>day = Fin (7036487389673423 / 70368744177664), week = Fin (399 / 4),
          month = Fin (795 / 8), year = Fin (3518243694836711 / 35184372088832)\<rparr> \<and>
   fst (main_async (Inr [sw_a, sw_b, sw_f]) sample_console sample_env sample_http py_float []) =
     Inr \<lparr>day = Fin (7036487389673423 / 70368744177664), week = Fin (399 / 4),
          month = Fin (795 / 8), year = Fin (3518243694836711 / 35184372088832)\<rparr> \<and>
   fst (main_proc (Inr [sw_a, sw_c, sw_j]) sample_console sample_env sample_http py_float) =
     Inl ConnectionError \<and>
   fst (main_async (Inr [sw_a, sw_c, sw_j]) sample_console sample_env sample_http py_float []) =
     Inl ConnectionError"
proof -
  let ?rep = "\<lparr>day = Fin (7036487389673423 / 70368744177664), week = Fin (399 / 4),
          month = Fin (795 / 8), year = Fin (3518243694836711 / 35184372088832)\<rparr>"
  have rs: "map (\<lambda>dev. snd (get_availability sample_console sample_env sample_http dev))
      [sw_a, sw_b, sw_f] =
      map Inr [Some (sample_availability(Name \<mapsto> ''sw-a'')), None, Some full_availability]"
    by (simp add: snd_fetch_examples)
  have 1: "fst (main_proc (Inr [sw_a, sw_b, sw_f]) sample_console sample_env sample_http py_float) =
      Inr ?rep"
    by (simp add: main_proc_returns [OF rs] average_examples)
  have h: "\<forall>dev\<in>set [sw_a, sw_b, sw_f].
      sample_http (request_url sample_env dev) (request_headers sample_env) \<notin>
        {Inr JNull, Inr (JBool False), Inr (JNumber 0)}"
    by (simp add: http_examples)
  have r: "\<forall>dev\<in>set [sw_a, sw_b, sw_f].
      \<exists>r. snd (get_availability sample_console sample_env sample_http dev) = Inr r"
    by (simp add: snd_fetch_examples)
  note t = variants_same_report [of "[sw_a, sw_b, sw_f]" sample_http sample_env sample_console
      py_float "[2, 0, 1]", OF h]
  from t r have 2: "fst (main_async (Inr [sw_a, sw_b, sw_f]) sample_console sample_env sample_http
      py_float [2, 0, 1]) = Inr ?rep"
    unfolding 1 by blast
  from t have 3: "fst (main_async (Inr [sw_a, sw_b, sw_f]) sample_console sample_env sample_http
      py_float []) = Inr ?rep"
    unfolding 1 by blast
  have 4: "fst (main_proc (Inr [sw_a, sw_c, sw_j]) sample_console sample_env sample_http py_float) =
      Inl ConnectionError"
    by (simp add: main_proc_def multi_proc_def snd_fetch_examples)
  have h': "\<forall>dev\<in>set [sw_a, sw_c, sw_j].
      sample_http (request_url sample_env dev) (request_headers sample_env) \<notin>
        {Inr JNull, Inr (JBool False), Inr (JNumber 0)}"
    by (simp add: http_examples)
  note t' = variants_same_report [of "[sw_a, sw_c, sw_j]" sample_http sample_env sample_console
      py_float "[]", OF h']
  from t' have 5: "fst (main_async (Inr [sw_a, sw_c, sw_j]) sample_console sample_env sample_http
      py_float []) = Inl ConnectionError"
    unfolding 4 by blast
  from 1 2 3 4 5 show ?thesis by (intro conjI)
qed

subsection \<open>C9: the percentages as floats\<close>

text \<open>
  C9 as the specification states it: the conversion of a percentage of six decimals loses
  no precision, so that the aggregation computes over the exact decimal values. The text
  \<^verbatim>\<open>99.999000\<close> stands for 99999/1000, and \<^verbatim>\<open>float\<close> gives the float nearest to it,
  3518402024511111/35184372088832, which is another number; it is this float that
  \<open>average_availability\<close> gives as the mean of the year of the sample.
\<close>

theorem percentage_conversion_counterexample:
  "floatnumber (strip ''99.999000'') = Some (99999 / 1000) \<and>
   py_float ''99.999000'' = Inr (Fin (3518402024511111 / 35184372088832)) \<and>
   (3518402024511111 / 35184372088832 :: rat) \<noteq> 99999 / 1000 \<and>
   average_availability py_float [Some (sample_availability(Name \<mapsto> ''sw-a''))] =
     Inr \<lparr>day = Fin 100, week = Fin 100, month = Fin 100,
          year = Fin (3518402024511111 / 35184372088832)\<rparr>"
  by (simp add: number_examples py_float_examples average_examples)

text \<open>
  C9, amended. For every text that reads as a decimal number \<open>v\<close> of at most 100,
  \<^verbatim>\<open>float\<close> raises nothing and gives a finite float \<open>x\<close>, the binary64 value nearest to
  \<open>v\<close>, which is within \<open>2 ^ - 47\<close> of \<open>v\<close>; when \<open>v\<close> has six decimals, \<open>x\<close> rounded
  to six decimals is \<open>v\<close>; and \<open>x\<close> is the value that \<open>average_availability\<close> takes from
  a record with this text.
\<close>

theorem percentage_conversion:
  assumes "floatnumber (strip s) = Some v" and "v \<le> 100"
  shows "\<exists>x. py_float s = Inr (Fin x) \<and> b64 v = Fin x \<and> \<bar>x - v\<bar> \<le> 1 / 2 ^ 47 \<and>
             (\<forall>n. v = of_int n / 10 ^ 6 \<longrightarrow> round (x * 10 ^ 6) = n) \<and>
             (\<forall>r k. r (Dur k) = Some s \<longrightarrow> floats_of py_float k [Some r] = Inr [Fin x])"
proof -
  from assms(1) have "0 \<le> v" by (rule floatnumber_nonneg)
  moreover from assms(2) have "v < 128" by simp
  ultimately obtain x where x: "b64 v = Fin x" "\<bar>x - v\<bar> \<le> 1 / 2 ^ 47"
    using b64_near by blast
  from py_float_number [OF assms(1)] x(1) have p: "py_float s = Inr (Fin x)" by simp
  have "round (x * 10 ^ 6) = n" if "v = of_int n / 10 ^ 6" for n
    using x(2) unfolding that by (rule six_decimals)
  moreover have "floats_of py_float k [Some r] = Inr [Fin x]" if "r (Dur k) = Some s" for r k
    using that p by simp
  ultimately show ?thesis using p x by blast
qed

theorem percentage_conversion_witness:
  "py_float ''99.999000'' = Inr (Fin (3518402024511111 / 35184372088832)) \<and>
   \<bar>3518402024511111 / 35184372088832 - 99999 / 1000 :: rat\<bar> \<le> 1 / 2 ^ 47 \<and>
   round ((3518402024511111 / 35184372088832 :: rat) * 10 ^ 6) = 99999000 \<and>
   floats_of py_float 31536000 [Some sample_availability] =
     Inr [Fin (3518402024511111 / 35184372088832)]"
proof -
  have le: "(99999 / 1000 :: rat) \<le> 100" by simp
  from percentage_conversion [OF number_examples(2) le]
  obtain x where x: "py_float ''99.999000'' = Inr (Fin x)" "\<bar>x - 99999 / 1000\<bar> \<le> 1 / 2 ^ 47"
      "\<forall>n. (99999 / 1000 :: rat) = of_int n / 10 ^ 6 \<longrightarrow> round (x * 10 ^ 6) = n"
      "\<forall>r k. r (Dur k) = Some ''99.999000'' \<longrightarrow> floats_of py_float k [Some r] = Inr [Fin x]"
    by blast
  from x(1) have eq: "x = 3518402024511111 / 35184372088832"
    by (simp add: py_float_examples)
  have "(99999 / 1000 :: rat) = of_int 99999000 / 10 ^ 6" by simp
  with x(3) have r: "round (x * 10 ^ 6) = 99999000" by blast
  have "sample_availability (Dur 31536000) = Some ''99.999000''"
    by (simp add: sample_availability_def)
  with x(4) have f: "floats_of py_float 31536000 [Some sample_availability] = Inr [Fin x]"
    by blast
  from x(1,2) r f show ?thesis unfolding eq by (intro conjI)
qed

end
